theory Spec2Isabelle
  imports Complex_Main "HOL-Library.Word"
begin

unbundle bit_operations_syntax

section \<open>Numbers\<close>

text \<open>
  A JavaScript number is modelled as a real, or as the token \<open>NonFin\<close> that stands for
  any of \<open>Infinity\<close>, \<open>-Infinity\<close> and \<open>NaN\<close>. In this model every finite operation is
  exact: it gives the angles and the positions up to the rounding of doubles. Addition,
  multiplication, cosine and sine of a non-finite operand are non-finite in JavaScript
  (\<open>Infinity * 0\<close> is \<open>NaN\<close>), so \<open>NonFin\<close> is absorbing. A quotient or remainder by zero
  is \<open>NonFin\<close>. The rounding is modelled in the subsection on doubles below, for the
  update of the angle, where it decides whether the angle moves.
\<close>

datatype jsnum = Fin real | NonFin

instantiation jsnum :: "{plus, times}"
begin

fun plus_jsnum :: "jsnum \<Rightarrow> jsnum \<Rightarrow> jsnum" where
  "plus_jsnum (Fin a) (Fin b) = Fin (a + b)"
| "plus_jsnum _ _ = NonFin"

fun times_jsnum :: "jsnum \<Rightarrow> jsnum \<Rightarrow> jsnum" where
  "times_jsnum (Fin a) (Fin b) = Fin (a * b)"
| "times_jsnum _ _ = NonFin"

instance ..

end

fun Math_cos :: "jsnum \<Rightarrow> jsnum" where
  "Math_cos (Fin a) = Fin (cos a)"
| "Math_cos NonFin = NonFin"

fun Math_sin :: "jsnum \<Rightarrow> jsnum" where
  "Math_sin (Fin a) = Fin (sin a)"
| "Math_sin NonFin = NonFin"

text \<open>\<open>a / b\<close> on finite operands.\<close>

definition js_div :: "real \<Rightarrow> real \<Rightarrow> jsnum" where
  "js_div a b = (if b = 0 then NonFin else Fin (a / b))"

text \<open>\<open>a % b\<close> on finite operands: the remainder of the division truncated towards zero,
  so the result has the sign of the dividend.\<close>

definition trunc :: "real \<Rightarrow> int" where
  "trunc q = (if 0 \<le> q then \<lfloor>q\<rfloor> else \<lceil>q\<rceil>)"

definition js_rem :: "real \<Rightarrow> real \<Rightarrow> jsnum" where
  "js_rem a b = (if b = 0 then NonFin else Fin (a - b * of_int (trunc (a / b))))"

text \<open>\<open>v || 0\<close> for the lookup of a key in an object literal of numbers: a missing key
  gives \<open>undefined\<close>, and both \<open>undefined\<close> and \<open>0\<close> give \<open>0\<close>.\<close>

definition or_zero :: "real option \<Rightarrow> real" where
  "or_zero v = (case v of None \<Rightarrow> 0 | Some x \<Rightarrow> x)"

subsection \<open>Doubles\<close>

text \<open>
  The numbers of JavaScript are the doubles of IEEE 754 (binary64): 53 significant
  bits, a unit in the last place that is never below \<open>2 ^ emin\<close> (the subnormal
  numbers), and a largest finite number just below \<open>2 ^ (emax + 1)\<close>. An arithmetic
  operation gives the double that is nearest to the exact result, a tie going to the
  double whose last bit is even. \<open>rne\<close> is this rounding to an integer, \<open>exponent64 x\<close> the
  exponent of the unit in the last place at \<open>x\<close>, and \<open>round_value x\<close> the multiple of that
  unit nearest to \<open>x\<close>.
\<close>

definition rne :: "real \<Rightarrow> int" where
  "rne y =
    (let f = \<lfloor>y\<rfloor>; d = y - of_int f
     in if d < 1 / 2 then f else if 1 / 2 < d then f + 1 else if even f then f else f + 1)"

definition emin :: int where
  "emin = - 1074"

definition emax :: int where
  "emax = 1023"

definition exponent64 :: "real \<Rightarrow> int" where
  "exponent64 x = max (\<lfloor>log 2 \<bar>x\<bar>\<rfloor> - 52) emin"

definition round_value :: "real \<Rightarrow> real" where
  "round_value x =
    (if x = 0 then 0
     else of_int (rne (x / 2 powi exponent64 x)) * 2 powi exponent64 x)"

text \<open>
  A double is the real value of a finite double, or one of the three values that are
  not finite. The sign of zero is not modelled. \<open>round64\<close> is the rounding of a real: a
  result whose rounded value reaches \<open>2 ^ (emax + 1)\<close> overflows to an infinity.
\<close>

datatype double = Finite real | PlusInf | MinusInf | NaN

definition round64 :: "real \<Rightarrow> double" where
  "round64 x =
    (let r = round_value x
     in if 2 powi (emax + 1) \<le> r then PlusInf
        else if r \<le> - (2 powi (emax + 1)) then MinusInf
        else Finite r)"


text \<open>
  The operators \<open>+\<close>, \<open>*\<close> and \<open>/\<close> on doubles: the exact result, rounded, and the results
  of IEEE 754 for operands that are not finite. A zero divisor is taken as \<open>+0\<close>.
\<close>

fun dadd :: "double \<Rightarrow> double \<Rightarrow> double" where
  "dadd (Finite x) (Finite y) = round64 (x + y)"
| "dadd NaN _ = NaN"
| "dadd _ NaN = NaN"
| "dadd PlusInf MinusInf = NaN"
| "dadd MinusInf PlusInf = NaN"
| "dadd PlusInf _ = PlusInf"
| "dadd _ PlusInf = PlusInf"
| "dadd MinusInf _ = MinusInf"
| "dadd _ MinusInf = MinusInf"

fun dmul :: "double \<Rightarrow> double \<Rightarrow> double" where
  "dmul (Finite x) (Finite y) = round64 (x * y)"
| "dmul NaN _ = NaN"
| "dmul _ NaN = NaN"
| "dmul (Finite x) PlusInf = (if x = 0 then NaN else if 0 < x then PlusInf else MinusInf)"
| "dmul (Finite x) MinusInf = (if x = 0 then NaN else if 0 < x then MinusInf else PlusInf)"
| "dmul PlusInf (Finite y) = (if y = 0 then NaN else if 0 < y then PlusInf else MinusInf)"
| "dmul MinusInf (Finite y) = (if y = 0 then NaN else if 0 < y then MinusInf else PlusInf)"
| "dmul PlusInf PlusInf = PlusInf"
| "dmul MinusInf MinusInf = PlusInf"
| "dmul PlusInf MinusInf = MinusInf"
| "dmul MinusInf PlusInf = MinusInf"

fun ddiv :: "double \<Rightarrow> double \<Rightarrow> double" where
  "ddiv (Finite x) (Finite y) =
     (if y = 0 then (if x = 0 then NaN else if 0 < x then PlusInf else MinusInf)
      else round64 (x / y))"
| "ddiv NaN _ = NaN"
| "ddiv _ NaN = NaN"
| "ddiv (Finite x) PlusInf = Finite 0"
| "ddiv (Finite x) MinusInf = Finite 0"
| "ddiv PlusInf (Finite y) = (if 0 \<le> y then PlusInf else MinusInf)"
| "ddiv MinusInf (Finite y) = (if 0 \<le> y then MinusInf else PlusInf)"
| "ddiv PlusInf PlusInf = NaN"
| "ddiv PlusInf MinusInf = NaN"
| "ddiv MinusInf PlusInf = NaN"
| "ddiv MinusInf MinusInf = NaN"

text \<open>\<open>Math.PI\<close>, the double \<open>0x400921FB54442D18\<close>.\<close>

definition Math_PI :: real where
  "Math_PI = 884279719003555 / 2 ^ 48"

section \<open>Configuration and catalog\<close>

record config =
  AU :: real
  radiusScale :: real
  timeScale :: real
  orbitalSpeedBoost :: real
  showGrid :: bool
  bloomStrength :: real
  bloomRadius :: real
  bloomThreshold :: real
  labelScale :: real

definition CONFIG :: config where
  "CONFIG = \<lparr> AU = 60, radiusScale = 2.0, timeScale = 1.0, orbitalSpeedBoost = 1000000,
     showGrid = False, bloomStrength = 0.8, bloomRadius = 1.0, bloomThreshold = 0.22,
     labelScale = 1.6 \<rparr>"

record named =
  name :: string
  radius :: real

record entry = named +
  a_AU :: real
  period_days :: real
  color :: nat

definition PLANETS :: "entry list" where
  "PLANETS =
   [ \<lparr> name = ''Mercury'', radius = 1.3 * radiusScale CONFIG, a_AU = 0.387, period_days = 87.969, color = 0xaaaaaa \<rparr>,
     \<lparr> name = ''Venus'', radius = 2.1 * radiusScale CONFIG, a_AU = 0.723, period_days = 224.701, color = 0xffd27f \<rparr>,
     \<lparr> name = ''Earth'', radius = 2.2 * radiusScale CONFIG, a_AU = 1.000, period_days = 365.256, color = 0x3ba3ff \<rparr>,
     \<lparr> name = ''Mars'', radius = 1.8 * radiusScale CONFIG, a_AU = 1.524, period_days = 686.980, color = 0xff6a4b \<rparr>,
     \<lparr> name = ''Jupiter'', radius = 8.5 * radiusScale CONFIG, a_AU = 5.203, period_days = 4332.59, color = 0xffaa00 \<rparr>,
     \<lparr> name = ''Saturn'', radius = 7.3 * radiusScale CONFIG, a_AU = 9.537, period_days = 10759.2, color = 0xffe680 \<rparr>,
     \<lparr> name = ''Uranus'', radius = 3.7 * radiusScale CONFIG, a_AU = 19.191, period_days = 30685.4, color = 0x80ffff \<rparr>,
     \<lparr> name = ''Neptune'', radius = 3.5 * radiusScale CONFIG, a_AU = 30.07, period_days = 60190, color = 0x5f7dff \<rparr> ]"

definition axialTilts :: "string \<rightharpoonup> real" where
  "axialTilts = map_of
     [ (''Mercury'', 0.01), (''Venus'', 177.4), (''Earth'', 23.4), (''Mars'', 25.2),
       (''Jupiter'', 3.1), (''Saturn'', 26.7), (''Uranus'', 97.8), (''Neptune'', 28.3) ]"

definition daySec :: real where
  "daySec = 86400"

definition phaseOffsets :: "string \<rightharpoonup> real" where
  "phaseOffsets = map_of
     [ (''Mercury'', 0.1), (''Venus'', 1.2), (''Earth'', 2.1), (''Mars'', 3.0),
       (''Jupiter'', 0.5), (''Saturn'', 1.6), (''Uranus'', 2.7), (''Neptune'', 3.8) ]"

definition degToRad :: "real \<Rightarrow> real" where
  "degToRad d = d * (pi / 180)"

section \<open>Planets\<close>

text \<open>
  The part of a planet's mesh that the animation writes: its position and its rotation
  about the y and z axes. The mesh's material and layers live in the scene store below.
\<close>

record pose =
  position :: "jsnum \<times> jsnum \<times> jsnum"
  rotation_y :: real
  rotation_z :: real

record planet = named +
  mesh :: pose
  distance :: real
  meanMotionSec :: jsnum
  theta :: jsnum
  spin :: real

text \<open>
  The argument of \<open>mesh.position.set\<close>, which the source writes out twice, in
  \<open>makePlanet\<close> and in \<open>animate\<close>: the point at angle \<open>th\<close> on the circle of radius \<open>d\<close> in the
  plane \<open>y = 0\<close>.
\<close>

definition circular_position :: "jsnum \<Rightarrow> real \<Rightarrow> jsnum \<times> jsnum \<times> jsnum" where
  "circular_position th d = (Math_cos th * Fin d, Fin 0, Math_sin th * Fin d)"

text \<open>
  \<open>makePlanet\<close>, with the two values it reads from its environment as parameters:
  \<open>now\<close> (the result of \<open>Date.now()\<close>, milliseconds) and \<open>rnd\<close> (the result of its one call of
  \<open>Math.random()\<close>). The function has no \<open>throw\<close> and no check of its argument.
\<close>

definition makePlanet :: "real \<Rightarrow> real \<Rightarrow> entry \<Rightarrow> planet" where
  "makePlanet now rnd p =
    (let dist = a_AU p * AU CONFIG;
         tilt = degToRad (or_zero (axialTilts (name p)));
         periodSec = period_days p * daySec;
         meanMotion = js_div (2 * pi) periodSec;
         nowSec = js_rem (now / 1000) periodSec;
         theta0 = meanMotion * nowSec + Fin (or_zero (phaseOffsets (name p)))
     in \<lparr> name = name p, radius = radius p,
          mesh = \<lparr> position = circular_position theta0 dist,
                   rotation_y = 0, rotation_z = tilt \<rparr>,
          distance = dist, meanMotionSec = meanMotion, theta = theta0,
          spin = 0.01 + rnd * 0.02 \<rparr>)"

text \<open>\<open>catalog.map(makePlanet)\<close>: the \<open>i\<close>-th call draws the \<open>i\<close>-th random number.\<close>

definition make_planets :: "real \<Rightarrow> (nat \<Rightarrow> real) \<Rightarrow> entry list \<Rightarrow> planet list" where
  "make_planets now rnd catalog = map (\<lambda>(i, p). makePlanet now (rnd i) p) (enumerate 0 catalog)"

text \<open>
  The mean motion as \<open>makePlanet\<close> computes it, in doubles:
  \<open>periodSec = p.period_days * daySec\<close> and \<open>meanMotionSec = (2 * Math.PI) / periodSec\<close>,
  each operation rounded. The period of an entry and \<open>daySec\<close> are the doubles of their
  literals.
\<close>

definition meanMotionSec_ieee :: "entry \<Rightarrow> double" where
  "meanMotionSec_ieee p =
    (let periodSec = dmul (round64 (period_days p)) (round64 daySec)
     in ddiv (dmul (Finite 2) (Finite Math_PI)) periodSec)"

text \<open>The moon's angular speed, about 27.3 days.\<close>

definition moonPeriodSec :: real where
  "moonPeriodSec = 27.3 * daySec"

definition moonMeanMotionSec :: real where
  "moonMeanMotionSec = (2 * pi) / moonPeriodSec"

section \<open>Orbital state and its update in one frame\<close>

record orbits =
  planets :: "planet list"
  moonAngle :: real
  moonGroup_rotation_y :: real
  sun_rotation_y :: real

datatype error = ConfigurationError | TypeError | ReferenceError

text \<open>
  The part of the script that reads the catalog (lines 275 to 321), taken by itself: the
  planets, then the lookup of Saturn (guarded by \<open>if (saturn)\<close>, it only adds a ring to
  the scene) and of Earth, whose mesh receives the moon. \<open>planets.find\<close> gives \<open>undefined\<close>
  when no planet is named Earth and \<open>earth.mesh\<close> then throws a TypeError. \<open>moonRnd\<close> is the
  random number of the moon's first angle. Of the errors, \<open>ConfigurationError\<close> is the one
  that the specification names; nothing in the source throws it. This is the state from
  which the frames run, once the statements before line 275 have been evaluated; the
  script as it is written throws before (see \<open>module_start\<close> below).
\<close>

definition startup :: "real \<Rightarrow> (nat \<Rightarrow> real) \<Rightarrow> real \<Rightarrow> entry list \<Rightarrow> error + orbits" where
  "startup now rnd moonRnd catalog =
    (let ps = make_planets now rnd catalog
     in case find (\<lambda>p. name p = ''Earth'') ps of
          None \<Rightarrow> Inl TypeError
        | Some earth \<Rightarrow>
            Inr \<lparr> planets = ps, moonAngle = moonRnd * pi * 2,
                  moonGroup_rotation_y = 0, sun_rotation_y = 0 \<rparr>)"

subsection \<open>The evaluation of the module\<close>

text \<open>
  The top-level statements of \<open>main.js\<close>, in the order of the file. A statement is the
  declaration of a name by \<open>const\<close> or \<open>let\<close>, or an expression statement (the \<open>if\<close> of
  line 282 included); it carries the line where it starts and the bindings of the
  module that its evaluation reads, in the order in which it reads them. The reads of
  the bodies of the module's functions that the statement calls are included: those of
  \<open>createSunMaterial\<close> at line 138, of \<open>addToBloom\<close> wherever it is called, of
  \<open>makePlanet\<close>, \<open>planetMat\<close> and \<open>makeLabel\<close> at line 275 (for a catalog that is not empty)
  and of \<open>makeOrbitRing\<close> at line 331. A function that is only passed on (\<open>onResize\<close>,
  \<open>animate\<close>, the listener of line 348) is not called by the statement. The names of the
  imports and of the globals of the browser are left out: they are bound before the
  body of the module is evaluated.
\<close>

datatype stmt = Const nat string "string list" | Run nat "string list"

text \<open>
  A binding of \<open>const\<close> or \<open>let\<close> is uninitialised until its declaration has been evaluated,
  and a read of it before that throws a ReferenceError, as does the read of a name that
  is not declared. \<open>first_failure\<close> evaluates the statements from the names that are
  initialised and gives the line and the name of the first read that throws.
\<close>

fun first_failure :: "string list \<Rightarrow> stmt list \<Rightarrow> (nat \<times> string) option" where
  "first_failure bound [] = None"
| "first_failure bound (Const l x rs # ss) =
    (case find (\<lambda>r. r \<notin> set bound) rs of
       Some r \<Rightarrow> Some (l, r)
     | None \<Rightarrow> first_failure (x # bound) ss)"
| "first_failure bound (Run l rs # ss) =
    (case find (\<lambda>r. r \<notin> set bound) rs of
       Some r \<Rightarrow> Some (l, r)
     | None \<Rightarrow> first_failure bound ss)"

text \<open>The function declarations of the module: they are hoisted, initialised from the start.\<close>

definition hoisted :: "string list" where
  "hoisted = [''createSunMaterial'', ''darkenNonBloom'', ''restoreMaterials'', ''makeLabel'',
     ''makePlanet'', ''makeOrbitRing'', ''onResize'', ''getClampedDelta'', ''animate'']"

definition main_js :: "stmt list" where
  "main_js =
   [ Const 9 ''CONFIG'' [],
     Const 22 ''container'' [],
     Const 24 ''renderer'' [],
     Run 25 [''renderer''],
     Run 26 [''renderer'', ''container''],
     Run 27 [''renderer''],
     Run 28 [''renderer''],
     Run 29 [''renderer''],
     Run 30 [''renderer''],
     Run 31 [''container'', ''renderer''],
     Const 33 ''scene'' [],
     Const 35 ''camera'' [''container''],
     Run 41 [''camera''],
     Const 46 ''controls'' [''camera'', ''renderer''],
     Run 47 [''controls''],
     Const 50 ''starGeo'' [],
     Const 51 ''starMat'' [],
     Run 52 [''scene'', ''starGeo'', ''starMat''],
     Run 55 [''scene''],
     Const 56 ''sunLight'' [],
     Run 57 [''scene'', ''sunLight''],
     Const 60 ''sunUniforms'' [],
     Const 72 ''SUN_VERTEX'' [],
     Const 80 ''SUN_FRAGMENT'' [],
     Const 138 ''sun'' [''CONFIG'', ''createSunMaterial'', ''sunUniforms'', ''SUN_VERTEX'',
       ''SUN_FRAGMENT''],
     Run 142 [''scene'', ''sun''],
     Run 143 [''sunLight'', ''sun''],
     Run 144 [''addToBloom'', ''sun'', ''BLOOM_LAYER''],
     Const 147 ''grid'' [],
     Run 148 [''grid''],
     Run 149 [''grid''],
     Run 150 [''grid'', ''CONFIG''],
     Run 151 [''scene'', ''grid''],
     Const 154 ''BLOOM_LAYER'' [],
     Const 156 ''addToBloom'' [],
     Const 158 ''darkMaterial'' [],
     Const 159 ''materials'' [],
     Const 174 ''planetMat'' [],
     Const 183 ''AU'' [''CONFIG''],
     Const 184 ''PLANETS'' [''CONFIG''],
     Const 195 ''axialTilts'' [],
     Const 198 ''now'' [],
     Const 199 ''daySec'' [],
     Const 200 ''phaseOffsets'' [],
     Const 275 ''planets'' [''PLANETS'', ''makePlanet'', ''scene'', ''planetMat'', ''AU'',
       ''axialTilts'', ''daySec'', ''now'', ''phaseOffsets'', ''makeLabel'', ''CONFIG'',
       ''addToBloom'', ''BLOOM_LAYER''],
     Run 278 [''addToBloom'', ''sun'', ''BLOOM_LAYER''],
     Const 281 ''saturn'' [''planets''],
     Run 282 [''saturn'', ''addToBloom'', ''BLOOM_LAYER''],
     Const 306 ''earth'' [''planets''],
     Const 307 ''moonGroup'' [],
     Run 308 [''earth'', ''moonGroup''],
     Const 310 ''moon'' [''CONFIG'', ''planetMat''],
     Run 314 [''moon''],
     Run 315 [''moonGroup'', ''moon''],
     Run 316 [''addToBloom'', ''moon'', ''BLOOM_LAYER''],
     Const 319 ''moonPeriodSec'' [''daySec''],
     Const 320 ''moonMeanMotionSec'' [''moonPeriodSec''],
     Const 321 ''moonAngle'' [],
     Run 331 [''PLANETS'', ''makeOrbitRing'', ''AU'', ''scene''],
     Run 341 [''onResize''],
     Const 344 ''clock'' [],
     Run 348 [],
     Run 384 [''renderer'', ''animate''] ]"


text \<open>\<open>getClampedDelta\<close>, from the clock's delta.\<close>

definition getClampedDelta :: "real \<Rightarrow> real" where
  "getClampedDelta delta = min delta 0.05"

text \<open>
  The body of \<open>planets.forEach\<close> in \<open>animate\<close>, over exact numbers (\<open>theta_ieee\<close> below is
  its update of the angle with the rounding of doubles).
\<close>

definition step_planet :: "config \<Rightarrow> real \<Rightarrow> real \<Rightarrow> planet \<Rightarrow> planet" where
  "step_planet cfg dt warp p =
    (let th = theta p + meanMotionSec p * Fin dt * Fin warp
     in p \<lparr> theta := th,
            mesh := (mesh p) \<lparr> position := circular_position th (distance p),
                              rotation_y := rotation_y (mesh p) + spin p * timeScale cfg * 1.4 \<rparr> \<rparr>)"

text \<open>The first half of \<open>animate\<close>, up to the moon's orbit, for a given \<open>dt\<close>.\<close>

definition advance :: "config \<Rightarrow> real \<Rightarrow> orbits \<Rightarrow> orbits" where
  "advance cfg dt s =
    (let warp = timeScale cfg * orbitalSpeedBoost cfg;
         angle = moonAngle s + moonMeanMotionSec * dt * warp
     in \<lparr> planets = map (step_planet cfg dt warp) (planets s),
          moonAngle = angle,
          moonGroup_rotation_y = angle,
          sun_rotation_y = sun_rotation_y s + 0.002 * timeScale cfg \<rparr>)"

text \<open>
  The update of a planet's angle in \<open>animate\<close>, in doubles:
  \<open>warp = CONFIG.timeScale * CONFIG.orbitalSpeedBoost\<close>, then
  \<open>p.theta += p.meanMotionSec * dt * warp\<close>, where the product associates to the left
  and each operation is rounded. The arguments are the angle, the mean motion, \<open>dt\<close>,
  \<open>timeScale\<close> and \<open>orbitalSpeedBoost\<close>.
\<close>

definition theta_ieee :: "double \<Rightarrow> double \<Rightarrow> double \<Rightarrow> double \<Rightarrow> double \<Rightarrow> double" where
  "theta_ieee th mm dt ts sb =
    (let warp = dmul ts sb
     in dadd th (dmul (dmul mm dt) warp))"

section \<open>Selective bloom\<close>

text \<open>
  The scene graph is a tree of objects; an object is identified by a number (its
  identity as a JavaScript object) and its mutable fields are kept in a store. Of an
  object the bloom code reads \<open>isMesh\<close> and \<open>layers\<close> and reads and writes \<open>material\<close>
  (\<open>None\<close> is \<open>undefined\<close>: groups, lights and the scene have no material).
\<close>

datatype material =
    MeshBasicMaterial nat
  | MeshStandardMaterial nat
  | ShaderMaterial
  | LineBasicMaterial nat
  | SpriteMaterial string

record obj =
  isMesh :: bool
  layers :: "32 word"
  material :: "material option"

datatype object3d = Object3D nat "object3d list"

record gfx =
  objects :: "nat \<Rightarrow> obj"
  materials :: "nat \<rightharpoonup> material option"

definition BLOOM_LAYER :: nat where
  "BLOOM_LAYER = 1"

text \<open>\<open>mesh.layers.enable(BLOOM_LAYER)\<close> sets bit \<open>BLOOM_LAYER\<close> of the layer mask.\<close>

definition addToBloom :: "obj \<Rightarrow> obj" where
  "addToBloom m = m \<lparr> layers := layers m OR push_bit BLOOM_LAYER 1 \<rparr>"

text \<open>
  \<open>Layers.isEnabled\<close>: whether bit \<open>l\<close> of the mask \<open>m\<close> is set. An object carries the bloom
  tag when \<open>isEnabled (layers ob) BLOOM_LAYER\<close>.
\<close>

definition isEnabled :: "32 word \<Rightarrow> nat \<Rightarrow> bool" where
  "isEnabled m l = (m AND push_bit l 1 \<noteq> 0)"

definition darkMaterial :: material where
  "darkMaterial = MeshBasicMaterial 0x000000"

text \<open>
  \<open>Layers.test\<close> belongs to the three.js library, which is not part of the repository.
  The functions below take it as the parameter \<open>test\<close>: \<open>test m l\<close> is the result of
  \<open>layers.test(l)\<close> on an object whose layer mask is \<open>m\<close>.
\<close>

definition darkenNonBloom :: "(32 word \<Rightarrow> nat \<Rightarrow> bool) \<Rightarrow> nat \<Rightarrow> gfx \<Rightarrow> gfx" where
  "darkenNonBloom test i st =
    (let ob = objects st i
     in if isMesh ob \<and> \<not> test (layers ob) BLOOM_LAYER
        then st \<lparr> materials := (materials st)(i \<mapsto> material ob),
                  objects := (objects st)(i := ob \<lparr> material := Some darkMaterial \<rparr>) \<rparr>
        else st)"

definition restoreMaterials :: "nat \<Rightarrow> gfx \<Rightarrow> gfx" where
  "restoreMaterials i st =
    (case materials st i of
       Some m \<Rightarrow> st \<lparr> objects := (objects st)(i := (objects st i) \<lparr> material := m \<rparr>),
                      materials := (materials st)(i := None) \<rparr>
     | None \<Rightarrow> st)"

text \<open>\<open>Object3D.traverse\<close>: the callback on the object itself, then on each child's subtree.\<close>

fun traverse :: "(nat \<Rightarrow> 's \<Rightarrow> 's) \<Rightarrow> object3d \<Rightarrow> 's \<Rightarrow> 's" where
  "traverse callback (Object3D i children) st = fold (traverse callback) children (callback i st)"

text \<open>The objects of a tree in the order in which \<open>traverse\<close> visits them.\<close>

fun preorder :: "object3d \<Rightarrow> nat list" where
  "preorder (Object3D i children) = i # concat (map preorder children)"

text \<open>
  A function of the source either returns or throws; the state it has written is there
  in both cases.
\<close>

datatype 'a outcome = Returned 'a | Threw 'a

text \<open>
  The second half of \<open>animate\<close>: the two traversals around \<open>composer.render()\<close>. The
  source does not declare \<open>composer\<close>; whether its \<open>render\<close> throws is the parameter
  \<open>render_throws\<close>. The statements are in sequence, with no \<open>try\<close>: when \<open>render\<close> throws,
  what follows it does not run.
\<close>

definition selective_bloom :: "(32 word \<Rightarrow> nat \<Rightarrow> bool) \<Rightarrow> bool \<Rightarrow> object3d \<Rightarrow> gfx \<Rightarrow> gfx outcome" where
  "selective_bloom test render_throws scene st =
    (let dark = traverse (darkenNonBloom test) scene st
     in if render_throws then Threw dark
        else Returned (traverse restoreMaterials scene dark))"

record world =
  orbit :: orbits
  graphics :: gfx

text \<open>\<open>animate\<close>: one frame, from the clock's delta.\<close>

definition animate ::
    "(32 word \<Rightarrow> nat \<Rightarrow> bool) \<Rightarrow> bool \<Rightarrow> object3d \<Rightarrow> config \<Rightarrow> real \<Rightarrow> world \<Rightarrow> world outcome" where
  "animate test render_throws scene cfg delta w =
    (let dt = getClampedDelta delta;
         moved = advance cfg dt (orbit w)
     in case selective_bloom test render_throws scene (graphics w) of
          Returned g \<Rightarrow> Returned \<lparr> orbit = moved, graphics = g \<rparr>
        | Threw g \<Rightarrow> Threw \<lparr> orbit = moved, graphics = g \<rparr>)"

text \<open>A run of frames; it ends at the first frame that throws.\<close>

fun frames ::
    "(32 word \<Rightarrow> nat \<Rightarrow> bool) \<Rightarrow> object3d \<Rightarrow> config \<Rightarrow> (real \<times> bool) list \<Rightarrow> world \<Rightarrow> world outcome" where
  "frames test scene cfg [] w = Returned w"
| "frames test scene cfg ((delta, render_throws) # rest) w =
    (case animate test render_throws scene cfg delta w of
       Returned w' \<Rightarrow> frames test scene cfg rest w'
     | Threw w' \<Rightarrow> Threw w')"

subsection \<open>The scene that the script builds\<close>

text \<open>
  The script calls \<open>addToBloom(sun)\<close> before the constant \<open>addToBloom\<close> is initialised and
  never declares \<open>composer\<close>. The model takes each function as it is declared; it does
  not model the order in which the module is evaluated.

  Objects are numbered in the order of their creation: the scene 0, the starfield 1,
  the two lights 2 and 3, the sun 4, the grid 5; for the \<open>k\<close>-th planet its group
  \<open>6 + 3k\<close>, its mesh \<open>7 + 3k\<close> and its label \<open>8 + 3k\<close>; Saturn's ring 30, the moon's group 31,
  the moon 32, and the eight orbit rings from 33. A new object has layer mask 1.
\<close>

definition new_mesh :: "material \<Rightarrow> obj" where
  "new_mesh m = \<lparr> isMesh = True, layers = 1, material = Some m \<rparr>"

definition new_object :: "material option \<Rightarrow> obj" where
  "new_object m = \<lparr> isMesh = False, layers = 1, material = m \<rparr>"

definition scene_objects :: "(nat \<times> obj) list" where
  "scene_objects =
     [ (0, new_object None),
       (1, new_mesh (MeshBasicMaterial 0x0b0b16)),
       (2, new_object None),
       (3, new_object None),
       (4, addToBloom (new_mesh ShaderMaterial)),
       (5, new_object (Some (LineBasicMaterial 0x333333))) ]
     @ concat (map (\<lambda>(k, p).
         [ (6 + 3 * k, new_object None),
           (7 + 3 * k, addToBloom (new_mesh (MeshStandardMaterial (color p)))),
           (8 + 3 * k, new_object (Some (SpriteMaterial (name p)))) ]) (enumerate 0 PLANETS))
     @ [ (30, addToBloom (new_mesh (MeshBasicMaterial 0xf5deb3))),
         (31, new_object None),
         (32, addToBloom (new_mesh (MeshStandardMaterial 0xcccccc))) ]
     @ map (\<lambda>k. (33 + k, new_object (Some (LineBasicMaterial 0x333344)))) [0..<length PLANETS]"

definition scene_store :: "nat \<Rightarrow> obj" where
  "scene_store i = (case map_of scene_objects i of Some ob \<Rightarrow> ob | None \<Rightarrow> new_object None)"

definition planet_subtree :: "nat \<Rightarrow> object3d" where
  "planet_subtree k =
     Object3D (6 + 3 * k)
       [ Object3D (7 + 3 * k)
           (Object3D (8 + 3 * k) []
            # (if k = 5 then [Object3D 30 []] else [])
            @ (if k = 2 then [Object3D 31 [Object3D 32 []]] else [])) ]"

definition scene :: object3d where
  "scene =
     Object3D 0
       ([ Object3D 1 [], Object3D 2 [], Object3D 3 [], Object3D 4 [], Object3D 5 [] ]
        @ map planet_subtree [0..<length PLANETS]
        @ map (\<lambda>k. Object3D (33 + k) []) [0..<length PLANETS])"

definition initial_gfx :: gfx where
  "initial_gfx = \<lparr> objects = scene_store, materials = Map.empty \<rparr>"

section \<open>The sun's fragment shader\<close>

text \<open>
  GLSL floats are modelled as reals. The built-in functions are those of the GLSL
  specification: \<open>fract x = x - floor x\<close>, \<open>mix x y a = x (1 - a) + y a\<close>, and
  \<open>smoothstep\<close>, whose result is undefined (\<open>None\<close>) when \<open>edge0 \<ge> edge1\<close>.
\<close>

type_synonym vec3 = "real \<times> real \<times> real"

definition fract :: "real \<Rightarrow> real" where
  "fract x = x - of_int \<lfloor>x\<rfloor>"

definition mix :: "real \<Rightarrow> real \<Rightarrow> real \<Rightarrow> real" where
  "mix x y a = x * (1 - a) + y * a"

definition clamp :: "real \<Rightarrow> real \<Rightarrow> real \<Rightarrow> real" where
  "clamp x lo hi = min (max x lo) hi"

definition smoothstep :: "real \<Rightarrow> real \<Rightarrow> real \<Rightarrow> real option" where
  "smoothstep edge0 edge1 x =
    (if edge0 \<ge> edge1 then None
     else let t = clamp ((x - edge0) / (edge1 - edge0)) 0 1 in Some (t * t * (3 - 2 * t)))"

definition hash :: "vec3 \<Rightarrow> real" where
  "hash p =
    (case p of (x, y, z) \<Rightarrow>
     let px = fract (x * 0.3183099 + 0.1) * 17;
         py = fract (y * 0.3183099 + 0.2) * 17;
         pz = fract (z * 0.3183099 + 0.3) * 17
     in fract (px * py * pz * (px + py + pz)))"

definition noise :: "vec3 \<Rightarrow> real" where
  "noise p =
    (case p of (x, y, z) \<Rightarrow>
     let ix = of_int \<lfloor>x\<rfloor>; iy = of_int \<lfloor>y\<rfloor>; iz = of_int \<lfloor>z\<rfloor>;
         fx = fract x; fy = fract y; fz = fract z;
         fx = fx * fx * (3 - 2 * fx);
         fy = fy * fy * (3 - 2 * fy);
         fz = fz * fz * (3 - 2 * fz)
     in mix
          (mix (mix (hash (ix + 0, iy + 0, iz + 0)) (hash (ix + 1, iy + 0, iz + 0)) fx)
               (mix (hash (ix + 0, iy + 1, iz + 0)) (hash (ix + 1, iy + 1, iz + 0)) fx) fy)
          (mix (mix (hash (ix + 0, iy + 0, iz + 1)) (hash (ix + 1, iy + 0, iz + 1)) fx)
               (mix (hash (ix + 0, iy + 1, iz + 1)) (hash (ix + 1, iy + 1, iz + 1)) fx) fy)
          fz)"

text \<open>A vector times a float and a vector plus a float, componentwise as in GLSL.\<close>

definition vec3_times :: "vec3 \<Rightarrow> real \<Rightarrow> vec3" where
  "vec3_times p c = (case p of (x, y, z) \<Rightarrow> (x * c, y * c, z * c))"

definition vec3_plus :: "vec3 \<Rightarrow> real \<Rightarrow> vec3" where
  "vec3_plus p c = (case p of (x, y, z) \<Rightarrow> (x + c, y + c, z + c))"

text \<open>The loop of \<open>fbm\<close>, with its variables \<open>i\<close>, \<open>a\<close>, \<open>s\<close> and \<open>p\<close>.\<close>

function fbm_loop :: "nat \<Rightarrow> real \<Rightarrow> real \<Rightarrow> vec3 \<Rightarrow> real" where
  "fbm_loop i a s p =
    (if i < 5
     then fbm_loop (i + 1) (a * 0.5) (s + a * noise p) (vec3_plus (vec3_times p 2.02) 11.5)
     else s)"
  by pat_completeness auto
termination
  by (relation "measure (\<lambda>(i, a, s, p). 5 - i)") auto

definition fbm :: "vec3 \<Rightarrow> real" where
  "fbm p = fbm_loop 0 0.5 0.0 p"

record uniforms =
  uTime :: real
  uScale :: real
  uSpeed :: real
  uCrack :: real
  uGlow :: real
  uColorHot :: vec3
  uColorMid :: vec3
  uColorDark :: vec3

text \<open>\<open>sunUniforms\<close>; the three colours are what \<open>THREE.Color\<close> makes of the hexadecimal
  codes, taken as parameters.\<close>

definition sunUniforms :: "vec3 \<Rightarrow> vec3 \<Rightarrow> vec3 \<Rightarrow> uniforms" where
  "sunUniforms hot mid dark =
     \<lparr> uTime = 0, uScale = 3.0, uSpeed = 0.12, uCrack = 0.55, uGlow = 2.2,
       uColorHot = hot, uColorMid = mid, uColorDark = dark \<rparr>"

definition mix3 :: "vec3 \<Rightarrow> vec3 \<Rightarrow> real \<Rightarrow> vec3" where
  "mix3 u v a = (case (u, v) of ((ux, uy, uz), (vx, vy, vz)) \<Rightarrow> (mix ux vx a, mix uy vy a, mix uz vz a))"

text \<open>The three scalar fields of \<open>main\<close>: \<open>n\<close>, \<open>n2\<close> and \<open>lava\<close>.\<close>

definition field_n :: "uniforms \<Rightarrow> real \<times> real \<Rightarrow> real" where
  "field_n u vUv =
    (case vUv of (vx, vy) \<Rightarrow>
       fbm (vx * uScale u, vy * uScale u, uTime u * uSpeed u))"

definition field_n2 :: "uniforms \<Rightarrow> real \<times> real \<Rightarrow> real" where
  "field_n2 u vUv =
    (case vUv of (vx, vy) \<Rightarrow>
       let n = field_n u vUv
       in fbm (vx * uScale u + 0.3 + n * 0.4, vy * uScale u + (- 0.2) + n * 0.4,
               uTime u * uSpeed u * 0.7))"

definition lava :: "uniforms \<Rightarrow> real \<times> real \<Rightarrow> real option" where
  "lava u vUv = smoothstep (uCrack u) 1.0 (max (field_n u vUv) (field_n2 u vUv))"

text \<open>\<open>main\<close>: the colour written to \<open>gl_FragColor\<close>, without its alpha of 1.\<close>

definition SUN_FRAGMENT :: "uniforms \<Rightarrow> real \<times> real \<Rightarrow> vec3 option" where
  "SUN_FRAGMENT u vUv =
    (case lava u vUv of
       None \<Rightarrow> None
     | Some l \<Rightarrow>
         let t = uTime u * uSpeed u;
             col = mix3 (uColorDark u) (uColorMid u) (field_n u vUv);
             col = mix3 col (uColorHot u) l;
             g = uGlow u * (0.8 + 0.2 * sin (t * 6.2831))
         in (case col of (r, gr, b) \<Rightarrow> Some (r * g, gr * g, b * g)))"

text \<open>
  \<open>fbm\<close> as the specification words it: the sum of five octaves of \<open>noise\<close> from the
  amplitude 0.5, each next octave at the doubled frequency and the halved amplitude,
  with the offset 11.5 added to the point at each octave.
\<close>

definition fbm_spec :: "vec3 \<Rightarrow> real" where
  "fbm_spec p =
     (\<Sum>k<5. (1 / 2) ^ (k + 1) * noise (((\<lambda>q. vec3_plus (vec3_times q 2) 11.5) ^^ k) p))"

section \<open>The earlier revision's placement of a planet\<close>

text \<open>
  In the earlier revision a planet's mesh sits at \<open>(d, 0, 0)\<close> in a group at the origin
  and \<open>animate\<close> turns the group: \<open>group.rotation.y\<close> is the orbital angle. The world
  position of the mesh is the group's rotation applied to the mesh's local position;
  the rotation by \<open>th\<close> about the y axis is that of \<open>Matrix4.makeRotationY\<close>.
\<close>

definition makeRotationY :: "real \<Rightarrow> vec3 \<Rightarrow> vec3" where
  "makeRotationY th v =
    (case v of (x, y, z) \<Rightarrow> (cos th * x + sin th * z, y, - sin th * x + cos th * z))"

definition group_placement :: "real \<Rightarrow> real \<Rightarrow> vec3" where
  "group_placement th d = makeRotationY th (d, 0, 0)"

section \<open>Results\<close>

subsection \<open>The catalog and the start\<close>

lemma PLANETS_positive: "p \<in> set PLANETS \<Longrightarrow> 0 < period_days p \<and> 0 < a_AU p"
  by (auto simp: PLANETS_def)


lemma length_PLANETS: "length PLANETS = 8"
  by (simp add: PLANETS_def)

lemma Earth_entry: "name (PLANETS ! 2) = ''Earth'' \<and> period_days (PLANETS ! 2) = 365.256"
  by (simp add: PLANETS_def)

lemma Earth_in_PLANETS: "''Earth'' \<in> name ` set PLANETS"
  by (simp add: PLANETS_def)

lemma length_make_planets: "length (make_planets now rnd catalog) = length catalog"
  by (simp add: make_planets_def)

lemma nth_make_planets:
  "i < length catalog \<Longrightarrow> make_planets now rnd catalog ! i = makePlanet now (rnd i) (catalog ! i)"
  by (simp add: make_planets_def nth_enumerate_eq)

lemma name_makePlanet: "name (makePlanet now r p) = name p"
  by (simp add: makePlanet_def Let_def)

lemma names_make_planets: "map name (make_planets now rnd catalog) = map name catalog"
  by (rule nth_equalityI) (simp_all add: length_make_planets nth_make_planets name_makePlanet)

lemma find_Earth:
  "(find (\<lambda>p. name p = ''Earth'') (make_planets now rnd catalog) = None)
    = (''Earth'' \<notin> name ` set catalog)"
proof -
  have "name ` set (make_planets now rnd catalog) = name ` set catalog"
    using names_make_planets [of now rnd catalog] by (metis set_map)
  moreover have "(find (\<lambda>p. name p = ''Earth'') (make_planets now rnd catalog) = None)
      = (''Earth'' \<notin> name ` set (make_planets now rnd catalog))"
    by (force simp: find_None_iff image_iff)
  ultimately show ?thesis
    by simp
qed

lemma startup_cases:
  "startup now rnd moonRnd catalog =
    (if ''Earth'' \<in> name ` set catalog
     then Inr \<lparr> planets = make_planets now rnd catalog, moonAngle = moonRnd * pi * 2,
                moonGroup_rotation_y = 0, sun_rotation_y = 0 \<rparr>
     else Inl TypeError)"
  using find_Earth [of now rnd catalog]
  by (auto simp: startup_def Let_def split: option.splits)

lemma startup_PLANETS:
  "startup now rnd moonRnd PLANETS =
     Inr \<lparr> planets = make_planets now rnd PLANETS, moonAngle = moonRnd * pi * 2,
           moonGroup_rotation_y = 0, sun_rotation_y = 0 \<rparr>"
  by (simp add: startup_cases Earth_in_PLANETS)

lemma makePlanet_fields:
  assumes "period_days p \<noteq> 0"
  shows "meanMotionSec (makePlanet now r p) = Fin (2 * pi / (period_days p * 86400))"
    and "distance (makePlanet now r p) = a_AU p * 60"
    and "theta (makePlanet now r p) =
          Fin (2 * pi / (period_days p * 86400)
               * (now / 1000 - period_days p * 86400 * of_int (trunc (now / 1000 / (period_days p * 86400))))
               + or_zero (phaseOffsets (name p)))"
    and "position (mesh (makePlanet now r p)) = circular_position (theta (makePlanet now r p)) (a_AU p * 60)"
  using assms by (simp_all add: makePlanet_def Let_def js_div_def js_rem_def daySec_def CONFIG_def)

lemma circular_position_Fin:
  "circular_position (Fin a) d = (Fin (cos a * d), Fin 0, Fin (sin a * d))"
  by (simp add: circular_position_def)

subsection \<open>The mean motion\<close>

lemma arctan_partial_sums:
  fixes x :: real
  assumes "0 < x" "x \<le> 1"
  shows "(\<Sum>k<2 * n. (- 1) ^ k * (1 / real (k * 2 + 1) * x ^ (k * 2 + 1))) \<le> arctan x"
    and "arctan x \<le> (\<Sum>k<2 * n + 1. (- 1) ^ k * (1 / real (k * 2 + 1) * x ^ (k * 2 + 1)))"
proof -
  let ?a = "\<lambda>k. 1 / real (k * 2 + 1) * x ^ (k * 2 + 1)"
  have ax: "\<bar>x\<bar> \<le> 1" using assms by simp
  have a0: "0 < ?a 0" using assms by simp
  have S: "arctan x = (\<Sum>k. (- 1) ^ k * ?a k)"
    by (rule arctan_series [OF ax])
  have "(\<Sum>k. (- 1) ^ k * ?a k) \<in> {(\<Sum>k<2 * n. (- 1) ^ k * ?a k) .. (\<Sum>k<2 * n + 1. (- 1) ^ k * ?a k)}"
    using summable_Leibniz(2) [OF zeroseq_arctan_series [OF ax] monoseq_arctan_series [OF ax]] a0
    by blast
  then show "(\<Sum>k<2 * n. (- 1) ^ k * ?a k) \<le> arctan x"
    and "arctan x \<le> (\<Sum>k<2 * n + 1. (- 1) ^ k * ?a k)"
    by (simp_all add: S)
qed

lemma pi_lower: "3.14159 < pi"
proof -
  have A: "(\<Sum>k<2 * 2. (- 1) ^ k * (1 / real (k * 2 + 1) * (1/5) ^ (k * 2 + 1))) \<le> arctan (1/5)"
    by (rule arctan_partial_sums(1)) simp_all
  have B: "arctan (1/239) \<le> (\<Sum>k<2 * 0 + 1. (- 1) ^ k * (1 / real (k * 2 + 1) * (1/239) ^ (k * 2 + 1)))"
    by (rule arctan_partial_sums(2)) simp_all
  have "pi = 16 * arctan (1/5) - 4 * arctan (1/239)"
    using machin by simp
  with A B show ?thesis
    by (simp add: eval_nat_numeral)
qed

lemma pi_upper: "pi < 3.1416"
proof -
  have A: "arctan (1/5) \<le> (\<Sum>k<2 * 2 + 1. (- 1) ^ k * (1 / real (k * 2 + 1) * (1/5) ^ (k * 2 + 1)))"
    by (rule arctan_partial_sums(2)) simp_all
  have B: "(\<Sum>k<2 * 1. (- 1) ^ k * (1 / real (k * 2 + 1) * (1/239) ^ (k * 2 + 1))) \<le> arctan (1/239)"
    by (rule arctan_partial_sums(1)) simp_all
  have "pi = 16 * arctan (1/5) - 4 * arctan (1/239)"
    using machin by simp
  with A B show ?thesis
    by (simp add: eval_nat_numeral)
qed

lemma earth_motion_bounds:
  "1.990985 / 10 ^ 7 < 2 * pi / (365.256 * 86400)" "2 * pi / (365.256 * 86400) < 1.990995 / 10 ^ 7"
  using pi_lower pi_upper by (simp_all add: field_simps)

text \<open>
  Claim C2, amended. For every entry of the catalog the mean motion that \<open>makePlanet\<close>
  derives is \<open>2 pi / (period_days * 86400)\<close> and it is positive. For the entry with
  \<open>period_days = 365.256\<close> it is 1.99099e-7 rad/s to the six digits given (within 5e-13).
\<close>

theorem mean_motion_formula:
  "(\<forall>p \<in> set PLANETS.
      meanMotionSec (makePlanet now rnd p) = Fin (2 * pi / (period_days p * 86400))
      \<and> 0 < 2 * pi / (period_days p * 86400))
   \<and> period_days (PLANETS ! 2) = 365.256
   \<and> \<bar>2 * pi / (period_days (PLANETS ! 2) * 86400) - 1.99099 / 10 ^ 7\<bar> \<le> 5 / 10 ^ 13"
proof (intro conjI ballI)
  fix p assume "p \<in> set PLANETS"
  then have pos: "0 < period_days p" using PLANETS_positive by blast
  then show "meanMotionSec (makePlanet now rnd p) = Fin (2 * pi / (period_days p * 86400))"
    by (simp add: makePlanet_fields(1))
  show "0 < 2 * pi / (period_days p * 86400)"
    using pos by simp
next
  show "period_days (PLANETS ! 2) = 365.256" by (simp add: Earth_entry)
next
  define m :: real where "m = 2 * pi / (365.256 * 86400)"
  have "1.990985 / 10 ^ 7 < m" "m < 1.990995 / 10 ^ 7"
    unfolding m_def by (rule earth_motion_bounds)+
  then have "\<bar>m - 1.99099 / 10 ^ 7\<bar> \<le> 5 / 10 ^ 13"
    by (simp add: abs_real_def)
  then show "\<bar>2 * pi / (period_days (PLANETS ! 2) * 86400) - 1.99099 / 10 ^ 7\<bar> \<le> 5 / 10 ^ 13"
    unfolding m_def by (simp only: Earth_entry)
qed

text \<open>
  Claim C2, witness: the entry of Earth.
\<close>

theorem mean_motion_formula_witness:
  "PLANETS ! 2 \<in> set PLANETS
   \<and> meanMotionSec (makePlanet 0 0 (PLANETS ! 2)) = Fin (2 * pi / (365.256 * 86400))
   \<and> 0 < 2 * pi / (365.256 * 86400 :: real)"
proof -
  have mem: "PLANETS ! 2 \<in> set PLANETS"
    by (rule nth_mem) (simp add: length_PLANETS)
  with mean_motion_formula [of 0 0] show ?thesis
    by (simp add: Earth_entry)
qed

text \<open>
  Claim C2, counterexample to the value that the claim states. The mean motion for
  \<open>period_days = 365.256\<close> is further than 1.3e-10 from 1.99238e-7: the two differ from
  the fourth significant digit on. (1.99238e-7 is \<open>2 pi / (365 * 86400)\<close>.)
\<close>

theorem mean_motion_earth_counterexample:
  "meanMotionSec (makePlanet 0 0 (PLANETS ! 2)) = Fin (2 * pi / (365.256 * 86400))
   \<and> 1.3 / 10 ^ 10 < \<bar>2 * pi / (365.256 * 86400) - 1.99238 / 10 ^ 7\<bar>"
proof
  show "meanMotionSec (makePlanet 0 0 (PLANETS ! 2)) = Fin (2 * pi / (365.256 * 86400))"
    using makePlanet_fields(1) [of "PLANETS ! 2" 0 0] by (simp add: Earth_entry)
  define m :: real where "m = 2 * pi / (365.256 * 86400)"
  have "1.990985 / 10 ^ 7 < m" "m < 1.990995 / 10 ^ 7"
    unfolding m_def by (rule earth_motion_bounds)+
  then have "1.3 / 10 ^ 10 < \<bar>m - 1.99238 / 10 ^ 7\<bar>"
    by (simp add: abs_real_def)
  then show "1.3 / 10 ^ 10 < \<bar>2 * pi / (365.256 * 86400) - 1.99238 / 10 ^ 7\<bar>"
    unfolding m_def .
qed

subsection \<open>No validation of the catalog\<close>


lemma main_js_fails_once:
  "first_failure hoisted (remove1 (Run 144 [''addToBloom'', ''sun'', ''BLOOM_LAYER'']) main_js) = None"
  by (simp add: hoisted_def main_js_def)








subsection \<open>The first angle\<close>





subsection \<open>The orbits in one frame\<close>

lemma step_planet_fields:
  "meanMotionSec (step_planet cfg dt warp p) = meanMotionSec p"
  "distance (step_planet cfg dt warp p) = distance p"
  "theta (step_planet cfg dt warp p) = theta p + meanMotionSec p * Fin dt * Fin warp"
  "position (mesh (step_planet cfg dt warp p)) =
     circular_position (theta p + meanMotionSec p * Fin dt * Fin warp) (distance p)"
  by (simp_all add: step_planet_def Let_def)

lemma planets_advance:
  "planets (advance cfg dt s) = map (step_planet cfg dt (timeScale cfg * orbitalSpeedBoost cfg)) (planets s)"
  by (simp add: advance_def Let_def)

lemma moonAngle_advance:
  "moonAngle (advance cfg dt s) = moonAngle s + moonMeanMotionSec * dt * timeScale cfg * orbitalSpeedBoost cfg"
  by (simp add: advance_def Let_def algebra_simps)

text \<open>What a run of advances keeps of the planets that \<open>startup\<close> made.\<close>

lemma fold_advance_keeps:
  assumes "length (planets s) = n"
    and "\<forall>i<n. meanMotionSec (planets s ! i) = Fin (m i) \<and> distance (planets s ! i) = d i
          \<and> (\<exists>a. theta (planets s ! i) = Fin a)
          \<and> fst (snd (position (mesh (planets s ! i)))) = Fin 0"
  shows "length (planets (fold (advance cfg) dts s)) = n
    \<and> (\<forall>i<n. meanMotionSec (planets (fold (advance cfg) dts s) ! i) = Fin (m i)
          \<and> distance (planets (fold (advance cfg) dts s) ! i) = d i
          \<and> (\<exists>a. theta (planets (fold (advance cfg) dts s) ! i) = Fin a)
          \<and> fst (snd (position (mesh (planets (fold (advance cfg) dts s) ! i)))) = Fin 0)"
  using assms
proof (induction dts arbitrary: s)
  case Nil
  then show ?case by simp
next
  case (Cons dt dts)
  have "length (planets (advance cfg dt s)) = n"
    using Cons.prems(1) by (simp add: planets_advance)
  moreover have "\<forall>i<n. meanMotionSec (planets (advance cfg dt s) ! i) = Fin (m i)
      \<and> distance (planets (advance cfg dt s) ! i) = d i
      \<and> (\<exists>a. theta (planets (advance cfg dt s) ! i) = Fin a)
      \<and> fst (snd (position (mesh (planets (advance cfg dt s) ! i)))) = Fin 0"
    using Cons.prems by (auto simp: planets_advance step_planet_fields circular_position_def)
  ultimately show ?case
    using Cons.IH [of "advance cfg dt s"] by simp
qed

lemma catalog_run:
  assumes "startup now rnd moonRnd PLANETS = Inr s0" and "i < length PLANETS"
  shows "length (planets (fold (advance cfg) dts s0)) = length PLANETS"
    and "meanMotionSec (planets (fold (advance cfg) dts s0) ! i)
           = Fin (2 * pi / (period_days (PLANETS ! i) * 86400))"
    and "distance (planets (fold (advance cfg) dts s0) ! i) = a_AU (PLANETS ! i) * 60"
    and "\<exists>a. theta (planets (fold (advance cfg) dts s0) ! i) = Fin a"
    and "fst (snd (position (mesh (planets (fold (advance cfg) dts s0) ! i)))) = Fin 0"
proof -
  have s0: "planets s0 = make_planets now rnd PLANETS"
    using assms(1) by (auto simp: startup_PLANETS)
  have nz: "period_days (PLANETS ! j) \<noteq> 0" if "j < length PLANETS" for j
    using PLANETS_positive [of "PLANETS ! j"] that by auto
  have init: "\<forall>j<length PLANETS.
      meanMotionSec (planets s0 ! j) = Fin (2 * pi / (period_days (PLANETS ! j) * 86400))
      \<and> distance (planets s0 ! j) = a_AU (PLANETS ! j) * 60
      \<and> (\<exists>a. theta (planets s0 ! j) = Fin a)
      \<and> fst (snd (position (mesh (planets s0 ! j)))) = Fin 0"
    using nz by (simp add: s0 nth_make_planets makePlanet_fields circular_position_def)
  have len: "length (planets s0) = length PLANETS"
    by (simp add: s0 length_make_planets)
  note keep = fold_advance_keeps [OF len init, of cfg dts]
  show "length (planets (fold (advance cfg) dts s0)) = length PLANETS"
    using keep by blast
  show "meanMotionSec (planets (fold (advance cfg) dts s0) ! i)
           = Fin (2 * pi / (period_days (PLANETS ! i) * 86400))"
    using keep assms(2) by blast
  show "distance (planets (fold (advance cfg) dts s0) ! i) = a_AU (PLANETS ! i) * 60"
    using keep assms(2) by blast
  show "\<exists>a. theta (planets (fold (advance cfg) dts s0) ! i) = Fin a"
    using keep assms(2) by blast
  show "fst (snd (position (mesh (planets (fold (advance cfg) dts s0) ! i)))) = Fin 0"
    using keep assms(2) by blast
qed

text \<open>
  Claim C1. For every planet of the catalog, in the state after any number of frames,
  one more advance step with any \<open>dt\<close> takes the planet's angle \<open>a\<close> to
  \<open>a + meanMotion * dt * timeScale * speedBoost\<close>, where \<open>meanMotion\<close> is the planet's mean
  motion \<open>2 pi / (period_days * 86400)\<close>; it sets the position of the mesh to
  \<open>(cos a' * distance, 0, sin a' * distance)\<close> for the new angle \<open>a'\<close>. The y-coordinate of
  the position is 0 in every such state, the first one included. The step takes the
  moon's angle to \<open>moonAngle + moonMeanMotionSec * dt * timeScale * speedBoost\<close> and turns
  the moon's group to it.
\<close>

theorem advance_angles_positions:
  assumes "startup now rnd moonRnd PLANETS = Inr s0"
    and "s = fold (advance cfg) dts s0"
    and "i < length PLANETS"
  shows "\<exists>a. theta (planets s ! i) = Fin a
    \<and> (let m = 2 * pi / (period_days (PLANETS ! i) * 86400);
            a' = a + m * dt * timeScale cfg * orbitalSpeedBoost cfg;
            d = a_AU (PLANETS ! i) * AU CONFIG;
            b' = planets (advance cfg dt s) ! i
        in meanMotionSec (planets s ! i) = Fin m
           \<and> theta b' = Fin a'
           \<and> position (mesh b') = (Fin (cos a' * d), Fin 0, Fin (sin a' * d)))
    \<and> fst (snd (position (mesh (planets s ! i)))) = Fin 0
    \<and> moonAngle (advance cfg dt s)
        = moonAngle s + moonMeanMotionSec * dt * timeScale cfg * orbitalSpeedBoost cfg
    \<and> moonGroup_rotation_y (advance cfg dt s) = moonAngle (advance cfg dt s)"
proof -
  note run = catalog_run [OF assms(1) assms(3), of cfg dts, folded assms(2)]
  from run(4) obtain a where a: "theta (planets s ! i) = Fin a" by blast
  have i: "i < length (planets s)" using run(1) assms(3) by simp
  have b': "planets (advance cfg dt s) ! i
      = step_planet cfg dt (timeScale cfg * orbitalSpeedBoost cfg) (planets s ! i)"
    using i by (simp add: planets_advance)
  have "theta (planets (advance cfg dt s) ! i)
      = Fin (a + 2 * pi / (period_days (PLANETS ! i) * 86400) * dt * timeScale cfg * orbitalSpeedBoost cfg)"
    by (simp add: b' step_planet_fields a run(2) algebra_simps)
  moreover have "position (mesh (planets (advance cfg dt s) ! i))
      = circular_position (theta (planets (advance cfg dt s) ! i)) (a_AU (PLANETS ! i) * 60)"
    by (simp add: b' step_planet_fields run(3))
  moreover have "moonGroup_rotation_y (advance cfg dt s) = moonAngle (advance cfg dt s)"
    by (simp add: advance_def Let_def)
  ultimately show ?thesis
    using a run(2) run(5)
    by (simp add: Let_def circular_position_Fin moonAngle_advance CONFIG_def)
qed

text \<open>
  Claim C1, witness: the catalog started at the epoch 1700000000000 ms, Earth (index 2),
  a first frame of 0.016 s under \<open>CONFIG\<close>.
\<close>

theorem advance_angles_positions_witness:
  "\<exists>a. theta (make_planets 1700000000000 (\<lambda>i. 0) PLANETS ! 2) = Fin a
     \<and> theta (planets (advance CONFIG 0.016
          \<lparr> planets = make_planets 1700000000000 (\<lambda>i. 0) PLANETS, moonAngle = 0 * pi * 2,
            moonGroup_rotation_y = 0, sun_rotation_y = 0 \<rparr>) ! 2)
        = Fin (a + 2 * pi / (365.256 * 86400) * 0.016 * 1 * 1000000)"
proof -
  have len: "2 < length PLANETS" by (simp add: length_PLANETS)
  have run: "\<lparr> planets = make_planets 1700000000000 (\<lambda>i. 0) PLANETS, moonAngle = 0 * pi * 2,
            moonGroup_rotation_y = 0, sun_rotation_y = 0 \<rparr>
      = fold (advance CONFIG) [] \<lparr> planets = make_planets 1700000000000 (\<lambda>i. 0) PLANETS,
            moonAngle = 0 * pi * 2, moonGroup_rotation_y = 0, sun_rotation_y = 0 \<rparr>"
    by simp
  from advance_angles_positions [OF startup_PLANETS run len, of "0.016"]
  obtain a where "theta (make_planets 1700000000000 (\<lambda>i. 0) PLANETS ! 2) = Fin a"
    and "theta (planets (advance CONFIG 0.016
          \<lparr> planets = make_planets 1700000000000 (\<lambda>i. 0) PLANETS, moonAngle = 0 * pi * 2,
            moonGroup_rotation_y = 0, sun_rotation_y = 0 \<rparr>) ! 2)
        = Fin (a + 2 * pi / (period_days (PLANETS ! 2) * 86400) * 0.016 * timeScale CONFIG * orbitalSpeedBoost CONFIG)"
    unfolding Let_def by auto
  then show ?thesis
    by (intro exI [of _ a]) (simp add: Earth_entry CONFIG_def)
qed

subsection \<open>The traversals of the bloom\<close>

lemma fold_traverse:
  "(\<And>t. t \<in> set ts \<Longrightarrow> (\<And>st. traverse callback t st = fold callback (preorder t) st))
   \<Longrightarrow> fold (traverse callback) ts st = fold callback (concat (map preorder ts)) st"
  by (induction ts arbitrary: st) simp_all

lemma traverse_preorder: "traverse callback t st = fold callback (preorder t) st"
proof (induction t arbitrary: st)
  case (Object3D i children)
  then show ?case
    by (simp add: fold_traverse)
qed

lemma darken_other:
  "j \<noteq> i \<Longrightarrow> objects (darkenNonBloom test i st) j = objects st j
     \<and> materials (darkenNonBloom test i st) j = materials st j"
  by (simp add: darkenNonBloom_def Let_def)

lemma darken_self:
  "objects (darkenNonBloom test i st) i =
     (if isMesh (objects st i) \<and> \<not> test (layers (objects st i)) BLOOM_LAYER
      then (objects st i) \<lparr> material := Some darkMaterial \<rparr> else objects st i)"
  "materials (darkenNonBloom test i st) i =
     (if isMesh (objects st i) \<and> \<not> test (layers (objects st i)) BLOOM_LAYER
      then Some (material (objects st i)) else materials st i)"
  by (simp_all add: darkenNonBloom_def Let_def)

lemma darken_more: "gfx.more (darkenNonBloom test i st) = gfx.more st"
  by (simp add: darkenNonBloom_def Let_def)

lemma fold_darken_notin:
  "j \<notin> set ids \<Longrightarrow>
     objects (fold (darkenNonBloom test) ids st) j = objects st j
     \<and> materials (fold (darkenNonBloom test) ids st) j = materials st j"
  by (induction ids arbitrary: st) (auto simp: darken_other)

lemma fold_darken_in:
  assumes "distinct ids" and "j \<in> set ids"
  shows "objects (fold (darkenNonBloom test) ids st) j =
           (if isMesh (objects st j) \<and> \<not> test (layers (objects st j)) BLOOM_LAYER
            then (objects st j) \<lparr> material := Some darkMaterial \<rparr> else objects st j)
       \<and> materials (fold (darkenNonBloom test) ids st) j =
           (if isMesh (objects st j) \<and> \<not> test (layers (objects st j)) BLOOM_LAYER
            then Some (material (objects st j)) else materials st j)"
  using assms
proof (induction ids arbitrary: st)
  case Nil
  then show ?case by simp
next
  case (Cons i ids)
  show ?case
  proof (cases "j = i")
    case True
    then have "j \<notin> set ids" using Cons.prems(1) by simp
    then show ?thesis
      using fold_darken_notin [of j ids test "darkenNonBloom test i st"] True
      by (simp add: darken_self)
  next
    case False
    then have "j \<in> set ids" using Cons.prems(2) by simp
    moreover have "distinct ids" using Cons.prems(1) by simp
    ultimately show ?thesis
      using Cons.IH [of "darkenNonBloom test i st"] darken_other [OF False, of test st]
      by simp
  qed
qed

lemma restore_other:
  "j \<noteq> i \<Longrightarrow> objects (restoreMaterials i st) j = objects st j
     \<and> materials (restoreMaterials i st) j = materials st j"
  by (simp add: restoreMaterials_def split: option.splits)

lemma restore_self:
  "objects (restoreMaterials i st) i =
     (case materials st i of Some m \<Rightarrow> (objects st i) \<lparr> material := m \<rparr> | None \<Rightarrow> objects st i)"
  "materials (restoreMaterials i st) i = None"
  by (simp_all add: restoreMaterials_def split: option.splits)

lemma fold_restore_notin:
  "j \<notin> set ids \<Longrightarrow>
     objects (fold restoreMaterials ids st) j = objects st j
     \<and> materials (fold restoreMaterials ids st) j = materials st j"
  by (induction ids arbitrary: st) (auto simp: restore_other)

lemma fold_restore_in:
  assumes "j \<in> set ids"
  shows "objects (fold restoreMaterials ids st) j =
           (case materials st j of Some m \<Rightarrow> (objects st j) \<lparr> material := m \<rparr> | None \<Rightarrow> objects st j)
       \<and> materials (fold restoreMaterials ids st) j = None"
  using assms
proof (induction ids arbitrary: st)
  case Nil
  then show ?case by simp
next
  case (Cons i ids)
  show ?case
  proof (cases "j = i")
    case True
    show ?thesis
    proof (cases "j \<in> set ids")
      case in_rest: True
      show ?thesis
        using Cons.IH [OF in_rest, of "restoreMaterials i st"] \<open>j = i\<close>
        by (simp add: restore_self cong: option.case_cong)
    next
      case False
      then show ?thesis
        using fold_restore_notin [of j ids "restoreMaterials i st"] \<open>j = i\<close>
        by (simp add: restore_self cong: option.case_cong)
    qed
  next
    case False
    then have "j \<in> set ids" using Cons.prems by simp
    then show ?thesis
      using Cons.IH [of "restoreMaterials i st"] restore_other [OF False, of st]
      by (simp cong: option.case_cong)
  qed
qed

lemma fold_darken_more: "gfx.more (fold (darkenNonBloom test) ids st) = gfx.more st"
  by (induction ids arbitrary: st) (simp_all add: darken_more)

lemma fold_restore_more: "gfx.more (fold restoreMaterials ids st) = gfx.more st"
  by (induction ids arbitrary: st) (simp_all add: restoreMaterials_def split: option.splits)

lemma darken_restore_identity:
  assumes "distinct ids" and "materials st = Map.empty"
  shows "fold restoreMaterials ids (fold (darkenNonBloom test) ids st) = st"
proof -
  let ?d = "fold (darkenNonBloom test) ids st"
  let ?r = "fold restoreMaterials ids ?d"
  have "objects ?r j = objects st j \<and> materials ?r j = materials st j" for j
  proof (cases "j \<in> set ids")
    case True
    show ?thesis
      using fold_restore_in [OF True, of ?d] fold_darken_in [OF assms(1) True, of test st] assms(2)
      by auto
  next
    case False
    then show ?thesis
      using fold_restore_notin [of j ids ?d] fold_darken_notin [of j ids test st]
      by simp
  qed
  then have "objects ?r = objects st" and "materials ?r = materials st"
    by auto
  moreover have "gfx.more ?r = gfx.more st"
    by (simp add: fold_restore_more fold_darken_more)
  ultimately show ?thesis
    by (rule gfx.equality)
qed

lemma upt_8: "[0..<8] = [0, 1, 2, 3, 4, 5, 6, 7]"
  by (simp add: upt_rec)

lemma preorder_scene:
  "preorder scene =
     [0, 1, 2, 3, 4, 5, 6, 7, 8, 9, 10, 11, 12, 13, 14, 31, 32, 15, 16, 17, 18, 19, 20,
      21, 22, 23, 30, 24, 25, 26, 27, 28, 29, 33, 34, 35, 36, 37, 38, 39, 40]"
  by (simp add: scene_def planet_subtree_def length_PLANETS upt_8)

lemma distinct_scene: "distinct (preorder scene)"
  by (simp add: preorder_scene)

lemma starfield: "scene_store 1 = new_mesh (MeshBasicMaterial 0x0b0b16)"
  by (simp add: scene_store_def scene_objects_def)

lemma orbit_ring:
  "scene_store 33 = new_object (Some (LineBasicMaterial 0x333344))"
  by (simp add: scene_store_def scene_objects_def PLANETS_def enumerate_eq_zip upt_rec map_add_def)

lemma untagged: "\<not> isEnabled 1 BLOOM_LAYER"
  by (simp add: isEnabled_def BLOOM_LAYER_def)

subsection \<open>The darkening pass\<close>

text \<open>
  Claim C4, amended. Let \<open>test\<close> answer true only for masks in which the bloom layer is
  enabled. In a scene whose traversal visits every object once, the darkening traversal
  saves the material of every mesh that lacks the bloom tag in the side table, under the
  object's identity, and replaces it by the black \<open>MeshBasicMaterial\<close>; an object that is
  not a mesh (a line, a sprite, a light, a group) keeps its material and its entry of
  the side table, with or without the tag.
\<close>

theorem extract_pass_darkens_untagged_meshes:
  assumes "distinct (preorder tree)"
    and "\<forall>m. test m BLOOM_LAYER \<longrightarrow> isEnabled m BLOOM_LAYER"
    and "i \<in> set (preorder tree)"
  shows "(isMesh (objects st i) \<and> \<not> isEnabled (layers (objects st i)) BLOOM_LAYER \<longrightarrow>
            materials (traverse (darkenNonBloom test) tree st) i = Some (material (objects st i))
            \<and> objects (traverse (darkenNonBloom test) tree st) i
                = (objects st i) \<lparr> material := Some (MeshBasicMaterial 0x000000) \<rparr>)
       \<and> (\<not> isMesh (objects st i) \<longrightarrow>
            materials (traverse (darkenNonBloom test) tree st) i = materials st i
            \<and> objects (traverse (darkenNonBloom test) tree st) i = objects st i)"
  using fold_darken_in [OF assms(1) assms(3), of test st] assms(2)
  by (auto simp: traverse_preorder darkMaterial_def)

text \<open>
  Claim C4, witness: in the scene of the script the starfield (object 1, a mesh without
  the tag) is saved and darkened, and the hemisphere light (object 2) is not entered in
  the side table.
\<close>

theorem extract_pass_darkens_untagged_meshes_witness:
  "materials (traverse (darkenNonBloom isEnabled) scene initial_gfx) 1
      = Some (Some (MeshBasicMaterial 0x0b0b16))
   \<and> objects (traverse (darkenNonBloom isEnabled) scene initial_gfx) 1
      = \<lparr> isMesh = True, layers = 1, material = Some (MeshBasicMaterial 0x000000) \<rparr>
   \<and> materials (traverse (darkenNonBloom isEnabled) scene initial_gfx) 2 = None"
proof -
  have one: "1 \<in> set (preorder scene)" and two: "2 \<in> set (preorder scene)"
    by (simp_all add: preorder_scene)
  have sub: "\<forall>m. isEnabled m BLOOM_LAYER \<longrightarrow> isEnabled m BLOOM_LAYER" by simp
  have ob1: "objects initial_gfx 1 = new_mesh (MeshBasicMaterial 0x0b0b16)"
    using starfield by (simp add: initial_gfx_def)
  have ob2: "objects initial_gfx 2 = new_object None"
    by (simp add: initial_gfx_def scene_store_def scene_objects_def)
  have empty: "materials initial_gfx = Map.empty"
    by (simp add: initial_gfx_def)
  show ?thesis
    using extract_pass_darkens_untagged_meshes
        [where tree = scene and test = isEnabled and i = 1 and st = initial_gfx, OF distinct_scene sub one]
      extract_pass_darkens_untagged_meshes
        [where tree = scene and test = isEnabled and i = 2 and st = initial_gfx, OF distinct_scene sub two]
      untagged ob1 ob2 empty
    by (simp add: new_mesh_def new_object_def)
qed

text \<open>
  Claim C4, counterexample. Mercury's orbit ring (object 33, a \<open>LineLoop\<close>) lacks the bloom
  tag; after the darkening traversal it has its own material and no entry in the side
  table, so it is in the bloom render with its true appearance.
\<close>

theorem extract_pass_keeps_lines_counterexample:
  "33 \<in> set (preorder scene)
   \<and> \<not> isEnabled (layers (objects initial_gfx 33)) BLOOM_LAYER
   \<and> material (objects initial_gfx 33) = Some (LineBasicMaterial 0x333344)
   \<and> material (objects (traverse (darkenNonBloom isEnabled) scene initial_gfx) 33)
        = Some (LineBasicMaterial 0x333344)
   \<and> materials (traverse (darkenNonBloom isEnabled) scene initial_gfx) 33 = None"
proof -
  have mem: "33 \<in> set (preorder scene)" by (simp add: preorder_scene)
  have ob: "objects initial_gfx 33 = new_object (Some (LineBasicMaterial 0x333344))"
    using orbit_ring by (simp add: initial_gfx_def)
  have empty: "materials initial_gfx = Map.empty"
    by (simp add: initial_gfx_def)
  show ?thesis
    using fold_darken_in [OF distinct_scene mem, of isEnabled initial_gfx] untagged mem ob empty
    by (simp add: traverse_preorder new_object_def)
qed

subsection \<open>A whole frame\<close>

lemma selective_bloom_returns:
  assumes "distinct (preorder tree)" and "materials st = Map.empty"
  shows "selective_bloom test False tree st = Returned st"
  using darken_restore_identity [OF assms, of test]
  by (simp add: selective_bloom_def traverse_preorder)

lemma animate_returns:
  assumes "distinct (preorder tree)" and "materials (graphics w) = Map.empty"
  shows "animate test False tree cfg delta w
    = Returned \<lparr> orbit = advance cfg (getClampedDelta delta) (orbit w), graphics = graphics w \<rparr>"
  by (simp add: animate_def selective_bloom_returns [OF assms])

lemma frames_return:
  assumes "distinct (preorder tree)"
  shows "materials (graphics w) = Map.empty \<Longrightarrow> \<forall>f\<in>set fs. \<not> snd f
    \<Longrightarrow> \<exists>w'. frames test tree cfg fs w = Returned w' \<and> graphics w' = graphics w"
proof (induction fs arbitrary: w)
  case Nil
  then show ?case by simp
next
  case (Cons f fs)
  obtain delta where f: "f = (delta, False)"
    using Cons.prems(2) by (cases f) auto
  let ?w = "\<lparr> orbit = advance cfg (getClampedDelta delta) (orbit w), graphics = graphics w \<rparr>"
  have "\<exists>w'. frames test tree cfg fs ?w = Returned w' \<and> graphics w' = graphics ?w"
    using Cons.prems by (intro Cons.IH) simp_all
  then show ?case
    by (simp add: f animate_returns [OF assms Cons.prems(1)])
qed

text \<open>
  Claim C3, amended. In a scene whose traversal visits every object once, a frame that
  starts with an empty side table and whose \<open>composer.render()\<close> returns ends with the
  side table empty and with every object's material as it was before the frame: the
  graphics state after the frame is the state before it. So it is after any run of such
  frames. The restore traversal runs only after \<open>composer.render()\<close> has returned: when
  it throws, the frame ends in the state that the darkening traversal left.
\<close>

theorem frame_restores_when_render_returns:
  assumes "distinct (preorder tree)" and "materials (graphics w) = Map.empty"
  shows "animate test False tree cfg delta w
           = Returned \<lparr> orbit = advance cfg (getClampedDelta delta) (orbit w), graphics = graphics w \<rparr>
    \<and> ((\<forall>f\<in>set fs. \<not> snd f) \<longrightarrow>
          (\<exists>w'. frames test tree cfg fs w = Returned w' \<and> graphics w' = graphics w))
    \<and> animate test True tree cfg delta w
           = Threw \<lparr> orbit = advance cfg (getClampedDelta delta) (orbit w),
                     graphics = traverse (darkenNonBloom test) tree (graphics w) \<rparr>"
proof (intro conjI impI)
  show "animate test False tree cfg delta w
      = Returned \<lparr> orbit = advance cfg (getClampedDelta delta) (orbit w), graphics = graphics w \<rparr>"
    by (rule animate_returns [OF assms])
  show "\<exists>w'. frames test tree cfg fs w = Returned w' \<and> graphics w' = graphics w"
    if "\<forall>f\<in>set fs. \<not> snd f"
    using frames_return [OF assms(1) assms(2) that] .
  show "animate test True tree cfg delta w
      = Threw \<lparr> orbit = advance cfg (getClampedDelta delta) (orbit w),
                graphics = traverse (darkenNonBloom test) tree (graphics w) \<rparr>"
    by (simp add: animate_def selective_bloom_def)
qed

text \<open>
  Claim C3, witness: the scene of the script with its first, empty side table; one frame
  and a run of two frames whose renders return.
\<close>

theorem frame_restores_when_render_returns_witness:
  "animate isEnabled False scene CONFIG 0.016
      \<lparr> orbit = \<lparr> planets = make_planets 1700000000000 (\<lambda>i. 0) PLANETS, moonAngle = 0,
                  moonGroup_rotation_y = 0, sun_rotation_y = 0 \<rparr>,
        graphics = initial_gfx \<rparr>
    = Returned
      \<lparr> orbit = advance CONFIG (getClampedDelta 0.016)
                  \<lparr> planets = make_planets 1700000000000 (\<lambda>i. 0) PLANETS, moonAngle = 0,
                    moonGroup_rotation_y = 0, sun_rotation_y = 0 \<rparr>,
        graphics = initial_gfx \<rparr>
   \<and> (\<exists>w'. frames isEnabled scene CONFIG [(0.016, False), (0.02, False)]
          \<lparr> orbit = \<lparr> planets = make_planets 1700000000000 (\<lambda>i. 0) PLANETS, moonAngle = 0,
                      moonGroup_rotation_y = 0, sun_rotation_y = 0 \<rparr>,
            graphics = initial_gfx \<rparr> = Returned w'
        \<and> graphics w' = initial_gfx)
   \<and> materials initial_gfx = Map.empty"
proof -
  let ?w = "\<lparr> orbit = \<lparr> planets = make_planets 1700000000000 (\<lambda>i. 0) PLANETS, moonAngle = 0,
                  moonGroup_rotation_y = 0, sun_rotation_y = 0 \<rparr>,
        graphics = initial_gfx \<rparr>"
  have empty: "materials (graphics ?w) = Map.empty"
    by (simp add: initial_gfx_def)
  have ok: "\<forall>f\<in>set [(0.016 :: real, False), (0.02, False)]. \<not> snd f"
    by simp
  note frame = frame_restores_when_render_returns
    [OF distinct_scene empty, of isEnabled CONFIG "0.016" "[(0.016, False), (0.02, False)]"]
  have "animate isEnabled False scene CONFIG 0.016 ?w
      = Returned \<lparr> orbit = advance CONFIG (getClampedDelta 0.016) (orbit ?w), graphics = graphics ?w \<rparr>"
    using frame by (rule conjunct1)
  moreover have "\<exists>w'. frames isEnabled scene CONFIG [(0.016, False), (0.02, False)] ?w = Returned w'
      \<and> graphics w' = graphics ?w"
    using frame [THEN conjunct2, THEN conjunct1] ok by (rule mp)
  ultimately show ?thesis
    using empty by (simp only: world.simps simp_thms)
qed

text \<open>
  Claim C3, counterexample. In the scene of the script, a frame that starts with the
  empty side table and whose \<open>composer.render()\<close> throws ends with the starfield (object 1)
  in the side table and with the black material in place of its own.
\<close>

theorem frame_leaks_when_render_throws_counterexample:
  "materials initial_gfx = Map.empty
   \<and> material (objects initial_gfx 1) = Some (MeshBasicMaterial 0x0b0b16)
   \<and> animate isEnabled True scene CONFIG 0.016
        \<lparr> orbit = \<lparr> planets = make_planets 1700000000000 (\<lambda>i. 0) PLANETS, moonAngle = 0,
                    moonGroup_rotation_y = 0, sun_rotation_y = 0 \<rparr>,
          graphics = initial_gfx \<rparr>
      = Threw
        \<lparr> orbit = advance CONFIG (getClampedDelta 0.016)
                    \<lparr> planets = make_planets 1700000000000 (\<lambda>i. 0) PLANETS, moonAngle = 0,
                      moonGroup_rotation_y = 0, sun_rotation_y = 0 \<rparr>,
          graphics = traverse (darkenNonBloom isEnabled) scene initial_gfx \<rparr>
   \<and> materials (traverse (darkenNonBloom isEnabled) scene initial_gfx) 1
        = Some (Some (MeshBasicMaterial 0x0b0b16))
   \<and> material (objects (traverse (darkenNonBloom isEnabled) scene initial_gfx) 1)
        = Some (MeshBasicMaterial 0x000000)"
proof -
  have one: "1 \<in> set (preorder scene)" by (simp add: preorder_scene)
  have ob: "objects initial_gfx 1 = new_mesh (MeshBasicMaterial 0x0b0b16)"
    using starfield by (simp add: initial_gfx_def)
  have empty: "materials initial_gfx = Map.empty"
    by (simp add: initial_gfx_def)
  show ?thesis
    using fold_darken_in [OF distinct_scene one, of isEnabled initial_gfx] untagged ob empty
    by (simp add: animate_def selective_bloom_def traverse_preorder new_mesh_def darkMaterial_def)
qed

subsection \<open>The ranges of the noise\<close>

lemma fract_bounds: "0 \<le> fract x" "fract x < 1"
  unfolding fract_def by linarith+

lemma hash_bounds: "0 \<le> hash p" "hash p < 1"
  by (cases p; simp add: hash_def Let_def fract_bounds)+

lemma mix_lower:
  assumes "0 \<le> a" "a \<le> 1" "lo \<le> x" "lo \<le> y"
  shows "lo \<le> mix x y a"
proof -
  have "lo * (1 - a) \<le> x * (1 - a)" and "lo * a \<le> y * a"
    using assms by (simp_all add: mult_right_mono)
  then have "lo * (1 - a) + lo * a \<le> mix x y a"
    unfolding mix_def by linarith
  then show ?thesis by (simp add: algebra_simps)
qed

lemma mix_upper:
  assumes "0 \<le> a" "a \<le> 1" "x < hi" "y < hi"
  shows "mix x y a < hi"
proof (cases "a = 0")
  case True
  then show ?thesis using assms(3) by (simp add: mix_def)
next
  case False
  then have "0 < a" using assms(1) by simp
  then have "y * a < hi * a"
    using assms(4) by (simp add: mult_strict_right_mono)
  moreover have "x * (1 - a) \<le> hi * (1 - a)"
    using assms(2,3) by (simp add: mult_right_mono)
  ultimately have "mix x y a < hi * (1 - a) + hi * a"
    unfolding mix_def by linarith
  then show ?thesis by (simp add: algebra_simps)
qed

lemma smooth_weight:
  fixes f :: real
  assumes "0 \<le> f" "f < 1"
  shows "0 \<le> f * f * (3 - 2 * f)" and "f * f * (3 - 2 * f) < 1"
proof -
  show "0 \<le> f * f * (3 - 2 * f)"
    using assms by (intro mult_nonneg_nonneg) simp_all
  have "1 - f * f * (3 - 2 * f) = (1 - f) * (1 - f) * (1 + 2 * f)"
    by (simp add: algebra_simps)
  moreover have "0 < (1 - f) * (1 - f) * (1 + 2 * f)"
    using assms by (intro mult_pos_pos) simp_all
  ultimately show "f * f * (3 - 2 * f) < 1" by linarith
qed

lemma noise_bounds: "0 \<le> noise p" "noise p < 1"
proof -
  obtain x y z where p: "p = (x, y, z)" by (cases p) auto
  define wx where "wx = fract x * fract x * (3 - 2 * fract x)"
  define wy where "wy = fract y * fract y * (3 - 2 * fract y)"
  define wz where "wz = fract z * fract z * (3 - 2 * fract z)"
  have w: "0 \<le> wx" "wx \<le> 1" "0 \<le> wy" "wy \<le> 1" "0 \<le> wz" "wz \<le> 1"
    using smooth_weight [OF fract_bounds, of x] smooth_weight [OF fract_bounds, of y]
      smooth_weight [OF fract_bounds, of z]
    by (simp_all add: wx_def wy_def wz_def)
  have n: "noise p =
      mix (mix (mix (hash (of_int \<lfloor>x\<rfloor> + 0, of_int \<lfloor>y\<rfloor> + 0, of_int \<lfloor>z\<rfloor> + 0))
                    (hash (of_int \<lfloor>x\<rfloor> + 1, of_int \<lfloor>y\<rfloor> + 0, of_int \<lfloor>z\<rfloor> + 0)) wx)
               (mix (hash (of_int \<lfloor>x\<rfloor> + 0, of_int \<lfloor>y\<rfloor> + 1, of_int \<lfloor>z\<rfloor> + 0))
                    (hash (of_int \<lfloor>x\<rfloor> + 1, of_int \<lfloor>y\<rfloor> + 1, of_int \<lfloor>z\<rfloor> + 0)) wx) wy)
          (mix (mix (hash (of_int \<lfloor>x\<rfloor> + 0, of_int \<lfloor>y\<rfloor> + 0, of_int \<lfloor>z\<rfloor> + 1))
                    (hash (of_int \<lfloor>x\<rfloor> + 1, of_int \<lfloor>y\<rfloor> + 0, of_int \<lfloor>z\<rfloor> + 1)) wx)
               (mix (hash (of_int \<lfloor>x\<rfloor> + 0, of_int \<lfloor>y\<rfloor> + 1, of_int \<lfloor>z\<rfloor> + 1))
                    (hash (of_int \<lfloor>x\<rfloor> + 1, of_int \<lfloor>y\<rfloor> + 1, of_int \<lfloor>z\<rfloor> + 1)) wx) wy)
          wz"
    unfolding p noise_def Let_def wx_def wy_def wz_def by simp
  show "0 \<le> noise p"
    unfolding n by (intro mix_lower w hash_bounds)
  show "noise p < 1"
    unfolding n by (intro mix_upper w hash_bounds)
qed

lemma fbm_unfold:
  "fbm p =
     1 / 2 * noise p
     + 1 / 4 * noise (vec3_plus (vec3_times p 2.02) 11.5)
     + 1 / 8 * noise (vec3_plus (vec3_times (vec3_plus (vec3_times p 2.02) 11.5) 2.02) 11.5)
     + 1 / 16 * noise (vec3_plus (vec3_times (vec3_plus (vec3_times
          (vec3_plus (vec3_times p 2.02) 11.5) 2.02) 11.5) 2.02) 11.5)
     + 1 / 32 * noise (vec3_plus (vec3_times (vec3_plus (vec3_times (vec3_plus (vec3_times
          (vec3_plus (vec3_times p 2.02) 11.5) 2.02) 11.5) 2.02) 11.5) 2.02) 11.5)"
proof -
  have step: "i < 5 \<Longrightarrow> fbm_loop i a s q
      = fbm_loop (Suc i) (a / 2) (s + a * noise q) (vec3_plus (vec3_times q 2.02) 11.5)" for i a s q
    by (subst fbm_loop.simps) simp
  have stop: "fbm_loop 5 a s q = s" for a s q
    by (subst fbm_loop.simps) simp
  have five: "Suc (Suc (Suc (Suc (Suc 0)))) = 5" by simp
  show ?thesis
    unfolding fbm_def
    by (simp add: step five stop)
qed

lemma octave_sum_bounds:
  fixes n0 n1 n2 n3 n4 :: real
  assumes "0 \<le> n0 \<and> n0 < 1" "0 \<le> n1 \<and> n1 < 1" "0 \<le> n2 \<and> n2 < 1" "0 \<le> n3 \<and> n3 < 1"
    "0 \<le> n4 \<and> n4 < 1"
  shows "0 \<le> 1 / 2 * n0 + 1 / 4 * n1 + 1 / 8 * n2 + 1 / 16 * n3 + 1 / 32 * n4"
    and "1 / 2 * n0 + 1 / 4 * n1 + 1 / 8 * n2 + 1 / 16 * n3 + 1 / 32 * n4 < 31 / 32"
  using assms by linarith+

lemma fbm_bounds: "0 \<le> fbm p" "fbm p < 0.96875"
proof -
  have b: "0 \<le> noise q \<and> noise q < 1" for q
    using noise_bounds [of q] by simp
  show "0 \<le> fbm p"
    unfolding fbm_unfold by (rule octave_sum_bounds(1) [OF b b b b b])
  have "fbm p < 31 / 32"
    unfolding fbm_unfold by (rule octave_sum_bounds(2) [OF b b b b b])
  then show "fbm p < 0.96875" by simp
qed

lemma smoothstep_below_one:
  assumes "e < 1" and "x < 1"
  shows "\<exists>l. smoothstep e 1 x = Some l \<and> 0 \<le> l \<and> l < 1"
proof -
  define t where "t = clamp ((x - e) / (1 - e)) 0 1"
  have "(x - e) / (1 - e) < 1"
    using assms by (simp add: field_simps)
  then have t: "0 \<le> t" "t < 1"
    by (simp_all add: t_def clamp_def)
  have "smoothstep e 1 x = Some (t * t * (3 - 2 * t))"
    using assms(1) by (simp add: smoothstep_def Let_def t_def)
  then show ?thesis
    using smooth_weight [OF t] by simp
qed

text \<open>
  Claim C9. For every point \<open>p\<close>, \<open>noise p\<close> is in \<open>[0, 1)\<close> and \<open>fbm p\<close> is in \<open>[0, 0.96875]\<close>, the sum
  of the five amplitudes. So \<open>max n n2\<close> is below 1 at every pixel, and \<open>lava\<close>, the
  \<open>smoothstep\<close> from \<open>uCrack\<close> to 1 of it, is defined and strictly below 1 whenever
  \<open>uCrack < 1\<close>: in particular for the uniforms of the source (\<open>uCrack = 0.55\<close>) at every
  time and every pixel.
\<close>

theorem noise_fbm_lava_ranges:
  "0 \<le> noise p \<and> noise p < 1
   \<and> 0 \<le> fbm p \<and> fbm p \<le> 0.96875
   \<and> 0.5 + 0.25 + 0.125 + 0.0625 + 0.03125 = (0.96875 :: real)
   \<and> max (field_n u vUv) (field_n2 u vUv) < 1
   \<and> (uCrack u < 1 \<longrightarrow> (\<exists>l. lava u vUv = Some l \<and> l < 1))
   \<and> (\<exists>l. lava ((sunUniforms hot mid dark) \<lparr> uTime := t \<rparr>) vUv = Some l \<and> l < 1)"
proof -
  obtain vx vy where v: "vUv = (vx, vy)" by (cases vUv) auto
  have n: "field_n u vUv < 0.96875"
    unfolding v field_n_def prod.case by (rule fbm_bounds(2))
  have n2: "field_n2 u vUv < 0.96875"
    unfolding v field_n2_def Let_def prod.case by (rule fbm_bounds(2))
  from n n2 have m: "max (field_n u vUv) (field_n2 u vUv) < 1" by simp
  have below: "\<exists>l. lava w vUv = Some l \<and> l < 1" if "uCrack w < 1" for w
  proof -
    have "field_n w vUv < 0.96875"
      unfolding v field_n_def prod.case by (rule fbm_bounds(2))
    moreover have "field_n2 w vUv < 0.96875"
      unfolding v field_n2_def Let_def prod.case by (rule fbm_bounds(2))
    ultimately have "max (field_n w vUv) (field_n2 w vUv) < 1" by simp
    from smoothstep_below_one [OF that this] show ?thesis
      by (auto simp: lava_def)
  qed
  have "uCrack ((sunUniforms hot mid dark) \<lparr> uTime := t \<rparr>) < 1"
    by (simp add: sunUniforms_def)
  then have "\<exists>l. lava ((sunUniforms hot mid dark) \<lparr> uTime := t \<rparr>) vUv = Some l \<and> l < 1"
    by (rule below)
  then show ?thesis
    using noise_bounds [of p] fbm_bounds [of p] m below [of u] by simp
qed

text \<open>
  Claim C9, witness: the uniforms of the source, with the three colours as fractions of
  255, at the pixel \<open>(0.25, 0.75)\<close>.
\<close>

theorem noise_fbm_lava_ranges_witness:
  "\<exists>l. lava (sunUniforms (1, 106 / 255, 0) (1, 224 / 255, 128 / 255) (42 / 255, 7 / 255, 0))
          (0.25, 0.75) = Some l \<and> l < 1"
proof -
  let ?u = "sunUniforms (1, 106 / 255, 0) (1, 224 / 255, 128 / 255) (42 / 255, 7 / 255, 0)"
  have "uCrack ?u < 1"
    by (simp add: sunUniforms_def)
  with noise_fbm_lava_ranges [of "(0, 0, 0)" ?u "(0.25, 0.75)"]
  show ?thesis by blast
qed

subsection \<open>The octaves of fbm\<close>

lemma fbm_spec_unfold:
  "fbm_spec p =
     1 / 2 * noise p
     + 1 / 4 * noise (vec3_plus (vec3_times p 2) 11.5)
     + 1 / 8 * noise (vec3_plus (vec3_times (vec3_plus (vec3_times p 2) 11.5) 2) 11.5)
     + 1 / 16 * noise (vec3_plus (vec3_times (vec3_plus (vec3_times
          (vec3_plus (vec3_times p 2) 11.5) 2) 11.5) 2) 11.5)
     + 1 / 32 * noise (vec3_plus (vec3_times (vec3_plus (vec3_times (vec3_plus (vec3_times
          (vec3_plus (vec3_times p 2) 11.5) 2) 11.5) 2) 11.5) 2) 11.5)"
  by (simp add: fbm_spec_def eval_nat_numeral)

text \<open>
  Claim C8, amended. \<open>fbm\<close> sums exactly five octaves of \<open>noise\<close>: the \<open>k\<close>-th has the
  amplitude \<open>(1/2) ^ (k + 1)\<close>, from 0.5 and halved at each octave, and samples the point
  that \<open>k\<close> steps \<open>q \<mapsto> q * 2.02 + 11.5\<close> make of \<open>p\<close>: the frequency is multiplied by 2.02 at
  each octave, not by 2, and the offset 11.5 is added.
\<close>

theorem fbm_five_octaves:
  "fbm p = (\<Sum>k<5. (1 / 2) ^ (k + 1) * noise (((\<lambda>q. vec3_plus (vec3_times q 2.02) 11.5) ^^ k) p))"
  by (simp add: fbm_unfold eval_nat_numeral)

lemma noise_lattice:
  "noise (of_int i, of_int j, of_int k) = hash (of_int i, of_int j, of_int k)"
  by (simp add: noise_def Let_def fract_def mix_def)

lemma spec_sample: "noise (64, 88, 88) < 1 / 10000"
proof -
  have "hash (64, 88, 88) < 1 / 10000"
    by (simp add: hash_def fract_def Let_def)
  then show ?thesis
    using noise_lattice [of 64 88 88] by simp
qed

lemma code_sample: "9 / 10 < noise (64.525, 88.765, 88.765)"
  by (simp add: noise_def hash_def fract_def mix_def Let_def)

text \<open>
  Claim C8, counterexample. At the point \<open>(26.25, 38.25, 38.25)\<close> the value of \<open>fbm\<close> is not
  that of the five octaves at doubled frequencies: the second octave samples
  \<open>(64.525, 88.765, 88.765)\<close>, where \<open>noise\<close> exceeds 0.9, and not \<open>(64, 88, 88)\<close>, where it is
  below 0.0001; the three octaves that follow weigh less than the difference.
\<close>

theorem fbm_not_doubling_counterexample:
  "fbm (26.25, 38.25, 38.25) \<noteq> fbm_spec (26.25, 38.25, 38.25)"
proof -
  let ?p = "(26.25, 38.25, 38.25) :: vec3"
  have c1: "vec3_plus (vec3_times ?p 2.02) 11.5 = (64.525, 88.765, 88.765)"
    by (simp add: vec3_plus_def vec3_times_def)
  have s1: "vec3_plus (vec3_times ?p 2) 11.5 = (64, 88, 88)"
    by (simp add: vec3_plus_def vec3_times_def)
  have b: "0 \<le> noise q \<and> noise q < 1" for q
    using noise_bounds [of q] by simp
  have gap: "1 / 2 * n0 + 1 / 4 * c + 1 / 8 * c2 + 1 / 16 * c3 + 1 / 32 * c4
      \<noteq> 1 / 2 * n0 + 1 / 4 * s + 1 / 8 * s2 + 1 / 16 * s3 + 1 / 32 * s4"
    if "9 / 10 < c" "s < 1 / 10000" "0 \<le> c2 \<and> c2 < 1" "0 \<le> c3 \<and> c3 < 1" "0 \<le> c4 \<and> c4 < 1"
      "0 \<le> s2 \<and> s2 < 1" "0 \<le> s3 \<and> s3 < 1" "0 \<le> s4 \<and> s4 < 1"
    for n0 c c2 c3 c4 s s2 s3 s4 :: real
    using that by linarith
  show ?thesis
    unfolding fbm_unfold fbm_spec_unfold c1 s1
    by (rule gap [OF code_sample spec_sample b b b b b b])
qed

subsection \<open>The placement in the two revisions\<close>

lemma group_placement_value: "group_placement th d = (cos th * d, 0, - (sin th * d))"
  by (simp add: group_placement_def makeRotationY_def)

text \<open>
  Claim C10, amended. For every angle \<open>th\<close> and distance \<open>d\<close> the earlier revision's placement
  (the mesh at \<open>(d, 0, 0)\<close> in a group turned by \<open>th\<close> about the y axis) gives the world
  position \<open>(cos th * d, 0, - sin th * d)\<close>, and the current revision's gives
  \<open>(cos th * d, 0, sin th * d)\<close>. The earlier placement at \<open>th\<close> is the current one at \<open>- th\<close>,
  and the two agree at \<open>th\<close> exactly when \<open>sin th * d = 0\<close>.
\<close>

theorem placements_mirror:
  "group_placement th d = (cos th * d, 0, - (sin th * d))
   \<and> circular_position (Fin th) d = (Fin (cos th * d), Fin 0, Fin (sin th * d))
   \<and> (case group_placement th d of (x, y, z) \<Rightarrow> (Fin x, Fin y, Fin z))
       = circular_position (Fin (- th)) d
   \<and> (((case group_placement th d of (x, y, z) \<Rightarrow> (Fin x, Fin y, Fin z))
        = circular_position (Fin th) d) = (sin th * d = 0))"
  by (simp add: group_placement_value circular_position_Fin)

text \<open>
  Claim C10, witness: at the angle \<open>pi\<close> the two placements agree.
\<close>

theorem placements_mirror_witness:
  "(case group_placement pi 60 of (x, y, z) \<Rightarrow> (Fin x, Fin y, Fin z))
     = circular_position (Fin pi) 60"
  using placements_mirror [of pi 60] by simp

text \<open>
  Claim C10, counterexample. At the angle \<open>pi / 2\<close> and the distance 1 the earlier revision
  places the planet at \<open>(0, 0, -1)\<close> and the current one at \<open>(0, 0, 1)\<close>.
\<close>

theorem placements_differ_counterexample:
  "group_placement (pi / 2) 1 = (0, 0, - 1)
   \<and> circular_position (Fin (pi / 2)) 1 = (Fin 0, Fin 0, Fin 1)"
  by (simp add: group_placement_value circular_position_Fin)

subsection \<open>The angle in doubles\<close>

text \<open>The rounding to an integer: it is monotone and odd.\<close>

lemma rne_cases:
  "rne y = \<lfloor>y\<rfloor> \<or> rne y = \<lfloor>y\<rfloor> + 1"
  by (simp add: rne_def Let_def)

lemma rne_of_int [simp]: "rne (of_int n) = n"
  by (simp add: rne_def)

lemma rne_ge_int: "of_int n \<le> y \<Longrightarrow> n \<le> rne y"
proof -
  assume "of_int n \<le> y"
  then have "n \<le> \<lfloor>y\<rfloor>" by (simp add: le_floor_iff)
  then show ?thesis using rne_cases [of y] by auto
qed

lemma rne_le_int: "y \<le> of_int n \<Longrightarrow> rne y \<le> n"
proof (cases "y = of_int n")
  case True
  then show ?thesis by simp
next
  case False
  assume "y \<le> of_int n"
  with False have "y < of_int n" by simp
  then have "\<lfloor>y\<rfloor> < n" by (simp add: floor_less_iff)
  then show ?thesis using rne_cases [of y] by auto
qed

lemma rne_mono: "x \<le> y \<Longrightarrow> rne x \<le> rne y"
proof -
  assume xy: "x \<le> y"
  then have fl: "\<lfloor>x\<rfloor> \<le> \<lfloor>y\<rfloor>" by (rule floor_mono)
  show ?thesis
  proof (cases "\<lfloor>x\<rfloor> = \<lfloor>y\<rfloor>")
    case True
    then show ?thesis
      using xy unfolding rne_def Let_def by (auto; linarith)
  next
    case False
    with fl have "\<lfloor>x\<rfloor> + 1 \<le> \<lfloor>y\<rfloor>" by simp
    moreover have "rne x \<le> \<lfloor>x\<rfloor> + 1" using rne_cases [of x] by auto
    moreover have "\<lfloor>y\<rfloor> \<le> rne y" using rne_cases [of y] by auto
    ultimately show ?thesis by simp
  qed
qed

lemma floor_minus_nonint:
  fixes x :: real
  assumes "x \<noteq> of_int \<lfloor>x\<rfloor>"
  shows "\<lfloor>- x\<rfloor> = - \<lfloor>x\<rfloor> - 1"
proof -
  have "real_of_int \<lfloor>x\<rfloor> \<noteq> x" using assms by (rule not_sym)
  then have "of_int \<lfloor>x\<rfloor> < x"
    using of_int_floor_le [of x] by (rule order.not_eq_order_implies_strict)
  then have "- x < real_of_int (- \<lfloor>x\<rfloor> - 1) + 1"
    by simp
  moreover have "real_of_int (- \<lfloor>x\<rfloor> - 1) \<le> - x"
    unfolding of_int_diff of_int_minus of_int_1
    using real_of_int_floor_add_one_ge [of x] by linarith
  ultimately show ?thesis
    by (intro floor_unique)
qed

lemma rne_minus: "rne (- x) = - rne x"
proof (cases "x = of_int \<lfloor>x\<rfloor>")
  case True
  then have "rne x = \<lfloor>x\<rfloor>" by (metis rne_of_int)
  moreover have "rne (- x) = - \<lfloor>x\<rfloor>"
    by (metis True of_int_minus rne_of_int)
  ultimately show ?thesis by simp
next
  case False
  then have c: "\<lfloor>- x\<rfloor> = - \<lfloor>x\<rfloor> - 1"
    by (rule floor_minus_nonint)
  show ?thesis
    unfolding rne_def Let_def c by (auto; linarith)
qed

text \<open>
  Powers of two, and the binade of a positive real: \<open>\<lfloor>log 2 x\<rfloor>\<close> is the one \<open>k\<close> with
  \<open>2 ^ k \<le> x < 2 ^ (k + 1)\<close>.
\<close>

lemma two_powi_pos: "0 < (2::real) powi k"
  by simp

lemma two_powi_mono: "a \<le> b \<Longrightarrow> (2::real) powi a \<le> 2 powi b"
  by (rule power_int_increasing) simp_all

lemma two_powi_add: "(2::real) powi (a + b) = 2 powi a * 2 powi b"
  by (rule power_int_add) simp

lemma two_powi_diff: "(2::real) powi (a - b) = 2 powi a / 2 powi b"
  by (simp add: power_int_diff)

lemma two_powi_nat: "0 \<le> k \<Longrightarrow> (2::real) powi k = of_int (2 ^ nat k)"
  by (simp add: power_int_def)

lemma two_powr_powi: "(2::real) powr (of_int k) = 2 powi k"
  by (simp add: powr_real_of_int power_int_def power_one_over inverse_eq_divide)

lemma binade:
  assumes "0 < x"
  shows "2 powi \<lfloor>log 2 x\<rfloor> \<le> x" and "x < 2 powi (\<lfloor>log 2 x\<rfloor> + 1)"
proof -
  have "2 powr (of_int \<lfloor>log 2 x\<rfloor>) \<le> x \<and> x < 2 powr (of_int (\<lfloor>log 2 x\<rfloor> + 1))"
    using floor_log_eq_powr_iff [of x 2 "\<lfloor>log 2 x\<rfloor>"] assms by simp
  then show "2 powi \<lfloor>log 2 x\<rfloor> \<le> x" and "x < 2 powi (\<lfloor>log 2 x\<rfloor> + 1)"
    by (simp_all only: two_powr_powi)
qed

lemma binade_unique:
  assumes "2 powi k \<le> x" and "x < 2 powi (k + 1)"
  shows "\<lfloor>log 2 x\<rfloor> = k"
proof -
  have pos: "0 < x" using assms(1) two_powi_pos [of k] by linarith
  have "2 powr (of_int k) \<le> x \<and> x < 2 powr (of_int k + 1)"
    using assms two_powr_powi [of k] two_powr_powi [of "k + 1"] by simp
  then show ?thesis
    using floor_log_eq_powr_iff [of x 2 k] pos by simp
qed

lemma floor_log_mono:
  assumes "0 < x" and "x \<le> y"
  shows "\<lfloor>log 2 x\<rfloor> \<le> \<lfloor>log 2 y\<rfloor>"
  using assms by (intro floor_mono) simp

lemma round_value_nonneg:
  assumes "0 \<le> x"
  shows "0 \<le> round_value x"
proof (cases "x = 0")
  case True
  then show ?thesis by (simp add: round_value_def)
next
  case False
  with assms have "0 \<le> x / 2 powi exponent64 x" by simp
  then have "0 \<le> rne (x / 2 powi exponent64 x)"
    using rne_ge_int [of 0] by simp
  then show ?thesis
    using False by (simp add: round_value_def)
qed

lemma round_value_lower:
  assumes "0 < x" and "emin \<le> \<lfloor>log 2 x\<rfloor>"
  shows "2 powi \<lfloor>log 2 x\<rfloor> \<le> round_value x"
proof -
  define k where "k = \<lfloor>log 2 x\<rfloor>"
  define e where "e = exponent64 x"
  have ek: "e \<le> k"
    using assms by (simp add: e_def k_def exponent64_def)
  have "2 powi k \<le> x" using binade(1) [OF assms(1)] by (simp add: k_def)
  then have "2 powi k / 2 powi e \<le> x / 2 powi e"
    by (simp add: divide_right_mono)
  then have "of_int (2 ^ nat (k - e)) \<le> x / 2 powi e"
    using ek two_powi_nat [of "k - e"] by (simp add: two_powi_diff)
  then have "2 ^ nat (k - e) \<le> rne (x / 2 powi e)"
    by (rule rne_ge_int)
  then have "real_of_int (2 ^ nat (k - e)) \<le> of_int (rne (x / 2 powi e))"
    by (simp only: of_int_le_iff)
  then have "real_of_int (2 ^ nat (k - e)) * 2 powi e \<le> of_int (rne (x / 2 powi e)) * 2 powi e"
    by (intro mult_right_mono) simp_all
  moreover have "of_int (2 ^ nat (k - e)) * 2 powi e = (2::real) powi k"
    using ek two_powi_nat [of "k - e"] two_powi_add [of "k - e" e] by simp
  ultimately have "2 powi k \<le> real_of_int (rne (x / 2 powi e)) * 2 powi e"
    by (simp only:)
  then show ?thesis
    using assms(1) by (simp add: round_value_def e_def k_def)
qed

lemma round_value_upper:
  assumes "0 < x"
  shows "round_value x \<le> 2 powi (max (\<lfloor>log 2 x\<rfloor> + 1) emin)"
proof -
  define k where "k = \<lfloor>log 2 x\<rfloor>"
  define e where "e = exponent64 x"
  have e: "e = max (k - 52) emin"
    using assms by (simp add: e_def k_def exponent64_def)
  have x: "x < 2 powi (k + 1)" using binade(2) [OF assms] by (simp add: k_def)
  have rv: "round_value x = of_int (rne (x / 2 powi e)) * 2 powi e"
    using assms by (simp add: round_value_def e_def)
  show ?thesis
  proof (cases "emin \<le> k + 1")
    case True
    then have ek: "e \<le> k + 1" by (simp add: e)
    have "x / 2 powi e \<le> 2 powi (k + 1) / 2 powi e"
      using x by (simp add: divide_right_mono)
    then have "x / 2 powi e \<le> of_int (2 ^ nat (k + 1 - e))"
      using ek two_powi_nat [of "k + 1 - e"] by (simp add: two_powi_diff)
    then have "rne (x / 2 powi e) \<le> 2 ^ nat (k + 1 - e)"
      by (rule rne_le_int)
    then have "real_of_int (rne (x / 2 powi e)) \<le> of_int (2 ^ nat (k + 1 - e))"
      by (simp only: of_int_le_iff)
    then have "real_of_int (rne (x / 2 powi e)) * 2 powi e \<le> of_int (2 ^ nat (k + 1 - e)) * 2 powi e"
      by (intro mult_right_mono) simp_all
    moreover have "of_int (2 ^ nat (k + 1 - e)) * 2 powi e = (2::real) powi (k + 1)"
      using ek two_powi_nat [of "k + 1 - e"] two_powi_add [of "k + 1 - e" e] by simp
    ultimately have "real_of_int (rne (x / 2 powi e)) * 2 powi e \<le> 2 powi (k + 1)"
      by (simp only:)
    then show ?thesis
      using True by (simp add: rv k_def [symmetric] max_def)
  next
    case False
    then have e': "e = emin" by (simp add: e)
    have "(2::real) powi (k + 1) \<le> 2 powi emin"
      using False by (intro two_powi_mono) simp
    then have "x / 2 powi emin \<le> 2 powi emin / 2 powi emin"
      using x by (intro divide_right_mono) simp_all
    then have "x / 2 powi emin \<le> of_int 1" by simp
    then have "rne (x / 2 powi emin) \<le> 1" by (rule rne_le_int)
    then have "real_of_int (rne (x / 2 powi emin)) \<le> 1" by simp
    then have "of_int (rne (x / 2 powi emin)) * 2 powi emin \<le> 1 * (2::real) powi emin"
      by (intro mult_right_mono) simp_all
    then show ?thesis
      using False by (simp add: rv e' k_def [symmetric] max_def)
  qed
qed

lemma round_value_mono_pos:
  assumes "0 < x" and "x \<le> y"
  shows "round_value x \<le> round_value y"
proof -
  have y: "0 < y" using assms by simp
  define kx where "kx = \<lfloor>log 2 x\<rfloor>"
  define ky where "ky = \<lfloor>log 2 y\<rfloor>"
  have k: "kx \<le> ky" unfolding kx_def ky_def using assms by (rule floor_log_mono)
  have ex: "exponent64 x = max (kx - 52) emin"
    using assms(1) by (simp add: exponent64_def kx_def)
  have ey: "exponent64 y = max (ky - 52) emin"
    using y by (simp add: exponent64_def ky_def)
  show ?thesis
  proof (cases "exponent64 x = exponent64 y")
    case True
    have "x / 2 powi exponent64 y \<le> y / 2 powi exponent64 y"
      using assms(2) by (simp add: divide_right_mono)
    then have "rne (x / 2 powi exponent64 y) \<le> rne (y / 2 powi exponent64 y)"
      by (rule rne_mono)
    then have "real_of_int (rne (x / 2 powi exponent64 y)) \<le> of_int (rne (y / 2 powi exponent64 y))"
      by (simp only: of_int_le_iff)
    then have "real_of_int (rne (x / 2 powi exponent64 y)) * 2 powi exponent64 y
        \<le> of_int (rne (y / 2 powi exponent64 y)) * 2 powi exponent64 y"
      by (intro mult_right_mono) simp_all
    then show ?thesis
      using assms(1) y True by (simp add: round_value_def)
  next
    case False
    with k ex ey have lt: "kx + 1 \<le> ky" and big: "emin < ky - 52"
      by (auto simp: max_def split: if_splits)
    have "round_value x \<le> 2 powi (max (kx + 1) emin)"
      using round_value_upper [OF assms(1)] by (simp add: kx_def)
    also have "\<dots> \<le> 2 powi ky"
      using lt big by (intro two_powi_mono) simp
    also have "\<dots> \<le> round_value y"
    proof -
      have "emin \<le> \<lfloor>log 2 y\<rfloor>" using big by (simp add: ky_def)
      then show ?thesis unfolding ky_def by (rule round_value_lower [OF y])
    qed
    finally show ?thesis .
  qed
qed

lemma exponent64_minus [simp]: "exponent64 (- x) = exponent64 x"
  by (simp add: exponent64_def)

lemma round_value_minus: "round_value (- x) = - round_value x"
  by (simp add: round_value_def rne_minus)

lemma round_value_mono:
  assumes "x \<le> y"
  shows "round_value x \<le> round_value y"
proof -
  consider "0 < x" | "x \<le> 0" "0 \<le> y" | "y < 0" by linarith
  then show ?thesis
  proof cases
    case 1
    then show ?thesis using assms by (rule round_value_mono_pos)
  next
    case 2
    have "0 \<le> round_value (- x)" using 2(1) by (intro round_value_nonneg) simp
    then have "round_value x \<le> 0" by (simp add: round_value_minus)
    then show ?thesis using round_value_nonneg [OF 2(2)] by simp
  next
    case 3
    then have "round_value (- y) \<le> round_value (- x)"
      using assms by (intro round_value_mono_pos) simp_all
    then show ?thesis by (simp add: round_value_minus)
  qed
qed

text \<open>
  The rounding of a real to a double: powers of two are doubles, the rounding keeps
  bounds that are powers of two and it never goes below a double that is below its
  argument. A sum of a double and of less than half its unit in the last place is rounded
  back to the double.
\<close>

lemma round_value_pow2:
  assumes "emin \<le> k"
  shows "round_value (2 powi k) = 2 powi k"
proof -
  define e where "e = max (k - 52) emin"
  have ek: "e \<le> k" using assms by (simp add: e_def)
  have "(2::real) powi k < 2 powi (k + 1)"
    by (simp add: two_powi_add)
  then have "\<lfloor>log 2 (2 powi k)\<rfloor> = k"
    by (intro binade_unique) simp_all
  then have ex: "exponent64 (2 powi k) = e"
    by (simp add: exponent64_def e_def)
  have "(2::real) powi k / 2 powi e = of_int (2 ^ nat (k - e))"
    using ek two_powi_nat [of "k - e"] by (simp add: two_powi_diff)
  then have "real_of_int (rne (2 powi k / 2 powi e)) * 2 powi e = 2 powi k / 2 powi e * 2 powi e"
    by (simp only: rne_of_int)
  then show ?thesis
    by (simp add: round_value_def ex)
qed

lemma round64_between:
  assumes "emin \<le> i" and "j \<le> emax" and "2 powi i \<le> x" and "x \<le> 2 powi j"
  shows "\<exists>r. round64 x = Finite r \<and> 2 powi i \<le> r \<and> r \<le> 2 powi j"
proof -
  have ij: "(2::real) powi i \<le> 2 powi j" using assms(3,4) by linarith
  have "i \<le> j"
  proof (rule ccontr)
    assume "\<not> i \<le> j"
    then have "j + 1 \<le> i" by simp
    then have "(2::real) powi (j + 1) \<le> 2 powi i" by (rule two_powi_mono)
    moreover have "(2::real) powi j < 2 powi (j + 1)" by (simp add: two_powi_add)
    ultimately show False using ij by linarith
  qed
  then have j: "emin \<le> j" using assms(1) by simp
  have lo: "2 powi i \<le> round_value x"
    using round_value_mono [OF assms(3)] by (simp only: round_value_pow2 [OF assms(1)])
  have hi: "round_value x \<le> 2 powi j"
    using round_value_mono [OF assms(4)] by (simp only: round_value_pow2 [OF j])
  have "(2::real) powi j < 2 powi (emax + 1)"
  proof -
    have "(2::real) powi j < 2 powi (j + 1)" by (simp add: two_powi_add)
    also have "\<dots> \<le> 2 powi (emax + 1)" using assms(2) by (intro two_powi_mono) simp
    finally show ?thesis .
  qed
  then have a: "\<not> 2 powi (emax + 1) \<le> round_value x" using hi by linarith
  have "0 < (2::real) powi i" and "0 < (2::real) powi (emax + 1)" by simp_all
  then have b: "\<not> round_value x \<le> - (2 powi (emax + 1))" using lo by linarith
  have "round64 x = Finite (round_value x)"
    unfolding round64_def Let_def using a b by (simp only: if_False)
  then show ?thesis using lo hi by blast
qed







lemma powi_product_bounds:
  assumes "2 powi i \<le> (x::real)" and "x \<le> 2 powi j" and "2 powi i' \<le> (y::real)" and "y \<le> 2 powi j'"
  shows "2 powi (i + i') \<le> x * y" and "x * y \<le> 2 powi (j + j')"
proof -
  have x: "0 < x" using assms(1) two_powi_pos [of i] by linarith
  have y: "0 < y" using assms(3) two_powi_pos [of i'] by linarith
  have "(2::real) powi i * 2 powi i' \<le> x * y"
    using assms(1,3) x y by (intro mult_mono) simp_all
  then show "2 powi (i + i') \<le> x * y" by (simp only: two_powi_add)
  have "x * y \<le> 2 powi j * 2 powi j'"
    using assms(2,4) x y by (intro mult_mono) simp_all
  then show "x * y \<le> 2 powi (j + j')" by (simp only: two_powi_add)
qed

lemma dmul_between:
  assumes "2 powi i \<le> x" and "x \<le> 2 powi j" and "2 powi i' \<le> y" and "y \<le> 2 powi j'"
    and "emin \<le> i + i'" and "j + j' \<le> emax"
  shows "\<exists>r. dmul (Finite x) (Finite y) = Finite r \<and> 2 powi (i + i') \<le> r \<and> r \<le> 2 powi (j + j')"
  using round64_between [OF assms(5,6) powi_product_bounds [OF assms(1-4)]] by simp

lemma ddiv_between:
  assumes "2 powi i \<le> x" and "x \<le> 2 powi j" and "2 powi i' \<le> y" and "y \<le> 2 powi j'"
    and "emin \<le> i - j'" and "j - i' \<le> emax"
  shows "\<exists>r. ddiv (Finite x) (Finite y) = Finite r \<and> 2 powi (i - j') \<le> r \<and> r \<le> 2 powi (j - i')"
proof -
  have y: "0 < y" using assms(3) two_powi_pos [of i'] by linarith
  have x: "0 < x" using assms(1) two_powi_pos [of i] by linarith
  have "2 powi i / 2 powi j' \<le> x / y"
    using assms(1,4) x y by (intro frac_le) simp_all
  then have lo: "2 powi (i - j') \<le> x / y" by (simp only: two_powi_diff)
  have "x / y \<le> 2 powi j / 2 powi i'"
    using assms(2,3) x y by (intro frac_le) simp_all
  then have hi: "x / y \<le> 2 powi (j - i')" by (simp only: two_powi_diff)
  show ?thesis
    using round64_between [OF assms(5,6) lo hi] y by simp
qed

text \<open>The mean motions of the catalog, in doubles, lie between \<open>2 ^ -31\<close> and \<open>2 ^ -19\<close>.\<close>

lemma emin_le [simp]: "emin \<le> k \<longleftrightarrow> - 1074 \<le> k"
  by (simp add: emin_def)

lemma le_emax [simp]: "k \<le> emax \<longleftrightarrow> k \<le> 1023"
  by (simp add: emax_def)

lemma PLANETS_period_bounds:
  assumes "p \<in> set PLANETS"
  shows "2 powi 6 \<le> period_days p" and "period_days p \<le> 2 powi 16"
  using assms by (auto simp: PLANETS_def)

lemma meanMotionSec_ieee_bounds:
  assumes "p \<in> set PLANETS"
  shows "\<exists>m. meanMotionSec_ieee p = Finite m \<and> 2 powi (- 31) \<le> m \<and> m \<le> 2 powi (- 19)"
proof -
  obtain d where d: "round64 (period_days p) = Finite d" "2 powi 6 \<le> d" "d \<le> 2 powi 16"
    using round64_between [OF _ _ PLANETS_period_bounds [OF assms]] by auto
  have "2 powi 16 \<le> daySec" and "daySec \<le> 2 powi 17"
    by (simp_all add: daySec_def)
  then obtain s where s: "round64 daySec = Finite s" "2 powi 16 \<le> s" "s \<le> 2 powi 17"
    using round64_between [of 16 17 daySec] by auto
  obtain ps where ps: "dmul (Finite d) (Finite s) = Finite ps" "2 powi (6 + 16) \<le> ps" "ps \<le> 2 powi (16 + 17)"
    using dmul_between [OF d(2,3) s(2,3)] by auto
  have "2 powi 1 \<le> (2::real)" and "(2::real) \<le> 2 powi 1"
    and "2 powi 1 \<le> Math_PI" and "Math_PI \<le> 2 powi 2"
    by (simp_all add: Math_PI_def)
  then obtain tp where tp: "dmul (Finite 2) (Finite Math_PI) = Finite tp" "2 powi (1 + 1) \<le> tp" "tp \<le> 2 powi (1 + 2)"
    using dmul_between [of 1 2 1 1 Math_PI 2] by auto
  obtain m where m: "ddiv (Finite tp) (Finite ps) = Finite m"
      "2 powi (1 + 1 - (16 + 17)) \<le> m" "m \<le> 2 powi (1 + 2 - (6 + 16))"
    using ddiv_between [OF tp(2,3) ps(2,3)] by auto
  have "meanMotionSec_ieee p = Finite m"
    by (simp only: meanMotionSec_ieee_def Let_def d(1) s(1) ps(1) tp(1) m(1))
  moreover have "2 powi (- 31) \<le> m" and "m \<le> 2 powi (- 19)"
    using m(2,3) by simp_all
  ultimately show ?thesis by blast
qed


text \<open>
  A product that underflows is zero and one that overflows is infinite. When
  \<open>timeScale * orbitalSpeedBoost\<close> overflows and \<open>meanMotionSec * dt\<close> underflows, the
  increment is \<open>0 * Infinity\<close> and the angle becomes \<open>NaN\<close>: here for Saturn, the angle 2, the
  least positive \<open>dt\<close> and both factors \<open>2 ^ 1000\<close>.
\<close>

lemma round64_underflow:
  assumes "0 \<le> x" and "x < 2 powi (emin - 1)"
  shows "round64 x = Finite 0"
proof -
  have "round_value x = 0"
  proof (cases "x = 0")
    case True
    then show ?thesis by (simp add: round_value_def)
  next
    case False
    then have pos: "0 < x" using assms(1) by simp
    have "2 powi \<lfloor>log 2 x\<rfloor> < (2::real) powi (emin - 1)"
      using binade(1) [OF pos] assms(2) by linarith
    then have "\<lfloor>log 2 x\<rfloor> < emin - 1"
      using two_powi_mono [of "emin - 1" "\<lfloor>log 2 x\<rfloor>"] by linarith
    then have e: "exponent64 x = emin"
      using pos by (simp add: exponent64_def)
    define q where "q = x / 2 powi emin"
    have "q < 2 powi (emin - 1) / 2 powi emin"
      unfolding q_def using assms(2) by (intro divide_strict_right_mono) simp_all
    also have "\<dots> = 1 / 2"
      using two_powi_add [of "emin - 1" 1] by simp
    finally have f1: "q < 1 / 2" .
    have f0: "0 \<le> q" unfolding q_def using assms(1) by simp
    have "real_of_int 0 \<le> q" using f0 by simp
    moreover have "q < real_of_int 0 + 1" using f1 by simp
    ultimately have fl: "\<lfloor>q\<rfloor> = 0" by (rule floor_unique)
    have "rne q = 0"
      using f1 by (simp add: rne_def Let_def fl)
    then have "rne (x / 2 powi emin) = 0" by (simp only: q_def)
    then show ?thesis
      using pos by (simp add: round_value_def e)
  qed
  then show ?thesis
    using two_powi_pos [of "emax + 1"] by (simp add: round64_def Let_def not_le)
qed

lemma round64_overflow:
  assumes "emax + 1 \<le> k"
  shows "round64 (2 powi k) = PlusInf"
proof -
  have "emin \<le> k" using assms by (simp add: emin_def emax_def)
  then have "round_value (2 powi k) = 2 powi k" by (rule round_value_pow2)
  moreover have "(2::real) powi (emax + 1) \<le> 2 powi k"
    using assms by (rule two_powi_mono)
  ultimately show ?thesis by (simp add: round64_def Let_def)
qed

lemma angle_nan_when_warp_overflows:
  "theta_ieee (Finite 2) (meanMotionSec_ieee (PLANETS ! 5)) (Finite (2 powi emin))
     (Finite (2 powi 1000)) (Finite (2 powi 1000)) = NaN"
proof -
  have "PLANETS ! 5 \<in> set PLANETS" by (simp add: PLANETS_def)
  then obtain m where m: "meanMotionSec_ieee (PLANETS ! 5) = Finite m" "2 powi (- 31) \<le> m" "m \<le> 2 powi (- 19)"
    using meanMotionSec_ieee_bounds by blast
  have mpos: "0 < m" using m(2) two_powi_pos [of "- 31"] by linarith
  have "m * 2 powi emin \<le> 2 powi (- 19) * 2 powi emin"
    using m(3) by (intro mult_right_mono) simp_all
  also have "\<dots> = 2 powi (- 19 + emin)" by (simp only: two_powi_add)
  also have "\<dots> < 2 powi (emin - 1)" by (intro power_int_strict_increasing) simp_all
  finally have "m * 2 powi emin < 2 powi (emin - 1)" .
  moreover have "0 \<le> m * 2 powi emin" using mpos by simp
  ultimately have x: "dmul (Finite m) (Finite (2 powi emin)) = Finite 0"
    using round64_underflow [of "m * 2 powi emin"] by simp
  have "(2::real) powi 1000 * 2 powi 1000 = 2 powi 2000"
    using two_powi_add [of 1000 1000] by simp
  then have w: "dmul (Finite (2 powi 1000)) (Finite (2 powi 1000)) = PlusInf"
    using round64_overflow [of 2000] by (simp add: emax_def)
  show ?thesis
    unfolding theta_ieee_def Let_def m(1) x w by simp
qed






end
